theory Spec2Isabelle
  imports Complex_Main
begin

section \<open>Numbers and vectors\<close>

text \<open>
  The program is JavaScript over the three.js vector library.  A JavaScript number is
  modelled as a \<^typ>\<open>real\<close>: arithmetic is exact, and rounding is not part of the model.
  The places where JavaScript arithmetic leaves the finite numbers are written out:
  a division by a zero canvas dimension gives \<open>Inl NonFinite\<close> (JavaScript yields
  \<open>Infinity\<close> or \<open>NaN\<close> there), and \<open>Math.acos\<close> returns \<open>None\<close> for \<open>NaN\<close>.
  Reading a missing array element and calling a method on it gives \<open>Inl TypeError\<close>.
\<close>

datatype js_error = NonFinite | TypeError

datatype Vector2 = Vector2 (x2: real) (y2: real)

datatype Vector3 = Vector3 (x3: real) (y3: real) (z3: real)

datatype Quaternion = Quaternion (qx: real) (qy: real) (qz: real) (qw: real)

text \<open>
  The three.js operations the program calls (three.js r69 to r71, the revisions that
  have \<open>Vector3.project\<close>).  \<open>divideScalar\<close> by zero sets the vector to zero, and
  \<open>setLength\<close> leaves a zero vector alone.
\<close>

definition sub2 :: "Vector2 \<Rightarrow> Vector2 \<Rightarrow> Vector2" where
  "sub2 a b = Vector2 (x2 a - x2 b) (y2 a - y2 b)"

definition lengthSq2 :: "Vector2 \<Rightarrow> real" where
  "lengthSq2 v = x2 v * x2 v + y2 v * y2 v"

definition multiplyScalar2 :: "Vector2 \<Rightarrow> real \<Rightarrow> Vector2" where
  "multiplyScalar2 v k = Vector2 (x2 v * k) (y2 v * k)"

definition add3 :: "Vector3 \<Rightarrow> Vector3 \<Rightarrow> Vector3" where
  "add3 a b = Vector3 (x3 a + x3 b) (y3 a + y3 b) (z3 a + z3 b)"

definition sub3 :: "Vector3 \<Rightarrow> Vector3 \<Rightarrow> Vector3" where
  "sub3 a b = Vector3 (x3 a - x3 b) (y3 a - y3 b) (z3 a - z3 b)"

definition dot3 :: "Vector3 \<Rightarrow> Vector3 \<Rightarrow> real" where
  "dot3 a b = x3 a * x3 b + y3 a * y3 b + z3 a * z3 b"

definition cross3 :: "Vector3 \<Rightarrow> Vector3 \<Rightarrow> Vector3" where
  "cross3 a b = Vector3 (y3 a * z3 b - z3 a * y3 b)
                        (z3 a * x3 b - x3 a * z3 b)
                        (x3 a * y3 b - y3 a * x3 b)"

definition length3 :: "Vector3 \<Rightarrow> real" where
  "length3 v = sqrt (x3 v * x3 v + y3 v * y3 v + z3 v * z3 v)"

definition multiplyScalar3 :: "Vector3 \<Rightarrow> real \<Rightarrow> Vector3" where
  "multiplyScalar3 v k = Vector3 (x3 v * k) (y3 v * k) (z3 v * k)"

definition divideScalar3 :: "Vector3 \<Rightarrow> real \<Rightarrow> Vector3" where
  "divideScalar3 v k =
     (if k \<noteq> 0 then multiplyScalar3 v (1 / k) else Vector3 0 0 0)"

definition normalize3 :: "Vector3 \<Rightarrow> Vector3" where
  "normalize3 v = divideScalar3 v (length3 v)"

definition setLength3 :: "Vector3 \<Rightarrow> real \<Rightarrow> Vector3" where
  "setLength3 v l =
     (let oldLength = length3 v
      in if oldLength \<noteq> 0 \<and> l \<noteq> oldLength then multiplyScalar3 v (l / oldLength) else v)"

definition setFromAxisAngle :: "Vector3 \<Rightarrow> real \<Rightarrow> Quaternion" where
  "setFromAxisAngle axis angle =
     (let halfAngle = angle / 2; s = sin halfAngle
      in Quaternion (x3 axis * s) (y3 axis * s) (z3 axis * s) (cos halfAngle))"

definition applyQuaternion :: "Vector3 \<Rightarrow> Quaternion \<Rightarrow> Vector3" where
  "applyQuaternion v q =
     (let x = x3 v; y = y3 v; z = z3 v;
          ix = qw q * x + qy q * z - qz q * y;
          iy = qw q * y + qz q * x - qx q * z;
          iz = qw q * z + qx q * y - qy q * x;
          iw = - qx q * x - qy q * y - qz q * z
      in Vector3 (ix * qw q + iw * - qx q + iy * - qz q - iz * - qy q)
                 (iy * qw q + iw * - qy q + iz * - qx q - ix * - qz q)
                 (iz * qw q + iw * - qz q + ix * - qy q - iy * - qx q))"

text \<open>\<open>Math.acos\<close>: \<open>NaN\<close> outside \<open>[-1, 1]\<close>.\<close>

definition js_acos :: "real \<Rightarrow> real option" where
  "js_acos c = (if - 1 \<le> c \<and> c \<le> 1 then Some (arccos c) else None)"

text \<open>
  A JavaScript quotient that is finite, or \<open>None\<close> when the divisor is zero (the quotient
  is then \<open>NaN\<close> or an infinity).
\<close>

definition js_div :: "real \<Rightarrow> real \<Rightarrow> real option" where
  "js_div a b = (if b = 0 then None else Some (a / b))"

section \<open>The Chameleon class\<close>

datatype ChameleonState = Idle | Draw | Pan | Rotate

record Box =
  left :: real
  top :: real
  width :: real
  height :: real

text \<open>
  The camera: its position and up vector, and its orientation, which three.js
  \<open>lookAt\<close> derives from the position, the looked-at point and the up vector at the
  time of the call; the model records these three.
\<close>

record Camera =
  position :: Vector3
  up :: Vector3
  aspect :: real
  orientation :: "Vector3 \<times> Vector3 \<times> Vector3"

record Face3 =
  a :: nat
  b :: nat
  c :: nat

datatype Material = ViewingMaterial | DrawingMaterial

text \<open>
  \<open>geometry.faceVertexUvs[0]\<close> is a reference to one of the two UV arrays of the
  object; the model records which.
\<close>

datatype UvSet = ViewingTextureUvs | DrawingTextureUvs

text \<open>Calls into the renderer, the console, the DOM and the 2D canvas context, in order.\<close>

datatype Effect =
    RenderScene
  | RenderDrawingTextureScene
  | DrawImage
  | ConsoleLog
  | SetStrokeStyle
  | MoveTo Vector2
  | LineTo Vector2
  | Stroke
  | ShowCanvasInNewWindow

record MouseEvent =
  shiftKey :: bool
  button :: nat
  pageX :: real
  pageY :: real
  wheelDelta :: "real option"
  detail :: real

record Chameleon =
  state :: ChameleonState
  camera :: Camera
  headLight :: Vector3
  rotateSpeed :: real
  zoomSpeed :: real
  panSpeed :: real
  canvasBox :: Box
  canvasWidth :: real
  canvasHeight :: real
  rendererSize :: "real \<times> real"
  target :: Vector3
  eye :: Vector3
  rotateStart :: Vector3
  rotateEnd :: Vector3
  zoomStart :: real
  zoomEnd :: real
  panStart :: Vector2
  panEnd :: Vector2
  vertices :: "Vector3 list"
  faces :: "Face3 list"
  drawingVertexUvs :: "Vector3 list"
  drawingTextureUvs :: "(Vector2 \<times> Vector2 \<times> Vector2) list"
  viewingTextureUvs :: "(Vector2 \<times> Vector2 \<times> Vector2) list"
  meshMaterial :: Material
  faceVertexUvs0 :: UvSet
  uvsNeedUpdate :: bool
  usingViewingTexture :: bool
  drawingCanvasSize :: "real \<times> real"
  drawingMapNeedsUpdate :: bool
  listening :: bool
  effects :: "Effect list"

subsection \<open>Mouse position and trackball projection\<close>

text \<open>\<open>_getMousePositionInCanvas(pageX, pageY, normalize)\<close>.\<close>

definition getMousePositionInCanvas :: "Chameleon \<Rightarrow> real \<Rightarrow> real \<Rightarrow> bool \<Rightarrow> js_error + Vector2" where
  "getMousePositionInCanvas s px py normalizeFlag =
     (let v = Vector2 (px - left (canvasBox s)) (py - top (canvasBox s))
      in if normalizeFlag
         then (if canvasWidth s = 0 \<or> canvasHeight s = 0 then Inl NonFinite
               else Inr (Vector2 (x2 v / canvasWidth s) (y2 v / canvasHeight s)))
         else Inr v)"

text \<open>
  The first half of \<open>_getMouseProjectionOnBall\<close>.  \<open>boxRelative\<close> is the value that
  \<open>mouseOnBall.set\<close> stores, the screen point in coordinates relative to the canvas box
  (defined where the box has a width and a height); \<open>mouseOnBall\<close> is the closure variable
  of this name after the \<open>if\<close>, the point of the unit hemisphere over the box.
\<close>

definition boxRelative :: "Box \<Rightarrow> real \<Rightarrow> real \<Rightarrow> Vector3" where
  "boxRelative box px py =
     Vector3 ((px - width box * 0.5 - left box) / (width box * 0.5))
             ((height box * 0.5 + top box - py) / (height box * 0.5))
             0.0"

definition mouseOnBall :: "Box \<Rightarrow> real \<Rightarrow> real \<Rightarrow> js_error + Vector3" where
  "mouseOnBall box px py =
     (if width box * 0.5 = 0 \<or> height box * 0.5 = 0 then Inl NonFinite
      else
        let m = boxRelative box px py;
            l = length3 m
        in if l > 1.0 then Inr (normalize3 m)
           else Inr (Vector3 (x3 m) (y3 m) (sqrt (1.0 - l * l))))"

text \<open>
  \<open>_getMouseProjectionOnBall(pageX, pageY)\<close>: returns the vector in camera-aligned
  coordinates, and the object, whose \<open>_eye\<close> field the function overwrites
  (\<open>subVectors\<close>, then \<open>setLength\<close> in place).  The closure's scratch vectors are
  overwritten before they are read in every call and are not part of the state.
\<close>

definition getMouseProjectionOnBall :: "Chameleon \<Rightarrow> real \<Rightarrow> real \<Rightarrow> js_error + (Vector3 \<times> Chameleon)" where
  "getMouseProjectionOnBall s px py =
     (case mouseOnBall (canvasBox s) px py of
        Inl e \<Rightarrow> Inl e
      | Inr m \<Rightarrow>
          let eye1 = sub3 (position (camera s)) (target s);
              vector1 = setLength3 (up (camera s)) (y3 m);
              objectUp = setLength3 (cross3 (up (camera s)) eye1) (x3 m);
              vector2 = add3 vector1 objectUp;
              eye2 = setLength3 eye1 (z3 m);
              vector3 = add3 vector2 eye2
          in Inr (vector3, s\<lparr>eye := eye2\<rparr>))"

subsection \<open>Camera kinematics\<close>

text \<open>
  The angle of \<open>rotateCamera\<close>: \<open>Math.acos(start.dot(end) / start.length() / end.length())\<close>.
  A zero divisor makes the quotient \<open>NaN\<close> or infinite, and \<open>Math.acos\<close> of either is
  \<open>NaN\<close>.  In \<open>rotateCamera\<close> the test \<open>if (angle)\<close> is false for \<open>NaN\<close> and for \<open>0\<close>.
\<close>

definition rotateAngle :: "Chameleon \<Rightarrow> real option" where
  "rotateAngle s =
     (case js_div (dot3 (rotateStart s) (rotateEnd s)) (length3 (rotateStart s)) of
        None \<Rightarrow> None
      | Some q \<Rightarrow>
          (case js_div q (length3 (rotateEnd s)) of
             None \<Rightarrow> None
           | Some r \<Rightarrow> js_acos r))"

definition rotateCamera :: "Chameleon \<Rightarrow> Chameleon" where
  "rotateCamera s =
     (case rotateAngle s of
        None \<Rightarrow> s
      | Some angle \<Rightarrow>
          if angle \<noteq> 0 then
            let axis = normalize3 (cross3 (rotateStart s) (rotateEnd s));
                angle' = angle * rotateSpeed s;
                quaternion = setFromAxisAngle axis (- angle');
                rotateEnd' = applyQuaternion (rotateEnd s) quaternion
            in s\<lparr>eye := applyQuaternion (eye s) quaternion,
                 camera := (camera s)\<lparr>up := applyQuaternion (up (camera s)) quaternion\<rparr>,
                 rotateEnd := rotateEnd',
                 rotateStart := rotateEnd'\<rparr>
          else s)"

definition zoomFactor :: "Chameleon \<Rightarrow> real" where
  "zoomFactor s = 1.0 + (zoomEnd s - zoomStart s) * zoomSpeed s"

definition zoomCamera :: "Chameleon \<Rightarrow> Chameleon" where
  "zoomCamera s =
     (let factor = zoomFactor s
      in if factor \<noteq> 1.0 \<and> factor > 0.0
         then s\<lparr>eye := multiplyScalar3 (eye s) factor, zoomStart := zoomEnd s\<rparr>
         else s)"

definition panVector :: "Chameleon \<Rightarrow> Vector3" where
  "panVector s =
     (let mouseChange = multiplyScalar2 (sub2 (panEnd s) (panStart s)) (length3 (eye s) * panSpeed s)
      in add3 (setLength3 (cross3 (eye s) (up (camera s))) (x2 mouseChange))
              (setLength3 (up (camera s)) (y2 mouseChange)))"

definition panCamera :: "Chameleon \<Rightarrow> Chameleon" where
  "panCamera s =
     (if lengthSq2 (sub2 (panEnd s) (panStart s)) \<noteq> 0
      then s\<lparr>camera := (camera s)\<lparr>position := add3 (position (camera s)) (panVector s)\<rparr>,
             target := add3 (target s) (panVector s),
             panStart := panEnd s\<rparr>
      else s)"

text \<open>The tail of \<open>update\<close>, after the three camera moves.\<close>

definition finishUpdate :: "Chameleon \<Rightarrow> Chameleon" where
  "finishUpdate s =
     (let pos = add3 (target s) (eye s)
      in s\<lparr>camera := (camera s)\<lparr>position := pos, orientation := (pos, target s, up (camera s))\<rparr>,
            headLight := pos,
            effects := effects s @ [RenderScene, DrawImage]\<rparr>)"

definition update :: "Chameleon \<Rightarrow> Chameleon" where
  "update s =
     finishUpdate (panCamera (zoomCamera (rotateCamera
       (s\<lparr>eye := sub3 (position (camera s)) (target s)\<rparr>))))"

subsection \<open>The two textures\<close>

definition useViewingTexture :: "Chameleon \<Rightarrow> Chameleon" where
  "useViewingTexture s =
     (if usingViewingTexture s then s
      else s\<lparr>effects := effects s @ [ConsoleLog],
             meshMaterial := ViewingMaterial,
             faceVertexUvs0 := ViewingTextureUvs,
             uvsNeedUpdate := True,
             usingViewingTexture := True\<rparr>)"

text \<open>
  The remapping of a projected vertex, \<open>x = (x + 1) / 2\<close> and \<open>y = (y + 1) / 2\<close>, and
  \<open>Vector2.copy\<close> of a \<open>Vector3\<close>, which takes its \<open>x\<close> and \<open>y\<close>.
\<close>

definition toTextureSpace :: "Vector3 \<Rightarrow> Vector3" where
  "toTextureSpace p = Vector3 ((x3 p + 1) / 2) ((y3 p + 1) / 2) (z3 p)"

definition copy2 :: "Vector3 \<Rightarrow> Vector2" where
  "copy2 v = Vector2 (x3 v) (y3 v)"

text \<open>
  The first loop of \<open>_useDrawingTexture\<close>, over the vertex indices.  The projection of
  three.js, \<open>Vector3.project(camera)\<close>, is the parameter \<open>proj\<close>.
\<close>

fun projectVertices :: "(Vector3 \<Rightarrow> Vector3) \<Rightarrow> Vector3 list \<Rightarrow> nat list \<Rightarrow> Vector3 list
    \<Rightarrow> js_error + Vector3 list" where
  "projectVertices proj vs [] uvs = Inr uvs"
| "projectVertices proj vs (i # is) uvs =
     (if i < length uvs
      then projectVertices proj vs is (uvs[i := toTextureSpace (proj (vs ! i))])
      else Inl TypeError)"

text \<open>The second loop, over the face indices.\<close>

fun copyFaceUvs :: "Face3 list \<Rightarrow> Vector3 list \<Rightarrow> nat list \<Rightarrow> (Vector2 \<times> Vector2 \<times> Vector2) list
    \<Rightarrow> js_error + (Vector2 \<times> Vector2 \<times> Vector2) list" where
  "copyFaceUvs fs vuvs [] tuvs = Inr tuvs"
| "copyFaceUvs fs vuvs (i # is) tuvs =
     (if i < length tuvs \<and> a (fs ! i) < length vuvs \<and> b (fs ! i) < length vuvs
         \<and> c (fs ! i) < length vuvs
      then copyFaceUvs fs vuvs is
             (tuvs[i := (copy2 (vuvs ! a (fs ! i)), copy2 (vuvs ! b (fs ! i)),
                         copy2 (vuvs ! c (fs ! i)))])
      else Inl TypeError)"

definition useDrawingTexture :: "(Camera \<Rightarrow> Vector3 \<Rightarrow> Vector3) \<Rightarrow> Chameleon \<Rightarrow> js_error + Chameleon" where
  "useDrawingTexture project s =
     (if \<not> usingViewingTexture s then Inr s
      else
        case projectVertices (project (camera s)) (vertices s) [0..<length (vertices s)]
               (drawingVertexUvs s) of
          Inl e \<Rightarrow> Inl e
        | Inr vuvs \<Rightarrow>
            (case copyFaceUvs (faces s) vuvs [0..<length (faces s)] (drawingTextureUvs s) of
               Inl e \<Rightarrow> Inl e
             | Inr tuvs \<Rightarrow>
                 Inr (s\<lparr>effects := effects s @ [RenderDrawingTextureScene, DrawImage],
                        drawingCanvasSize := rendererSize s,
                        drawingMapNeedsUpdate := True,
                        drawingVertexUvs := vuvs,
                        drawingTextureUvs := tuvs,
                        meshMaterial := DrawingMaterial,
                        faceVertexUvs0 := DrawingTextureUvs,
                        uvsNeedUpdate := True,
                        usingViewingTexture := False\<rparr>)))"

subsection \<open>Event handlers\<close>

definition mousedown :: "(Camera \<Rightarrow> Vector3 \<Rightarrow> Vector3) \<Rightarrow> MouseEvent \<Rightarrow> Chameleon \<Rightarrow> js_error + Chameleon" where
  "mousedown project event s =
     (if state s \<noteq> Idle then Inr s
      else if shiftKey event then
        let s1 = useViewingTexture s
        in if button event = 0 then
             (case getMouseProjectionOnBall (s1\<lparr>state := Rotate\<rparr>) (pageX event) (pageY event) of
                Inl e \<Rightarrow> Inl e
              | Inr (v, s2) \<Rightarrow> Inr (s2\<lparr>rotateStart := v, rotateEnd := v, listening := True\<rparr>))
           else if button event = 2 then
             (case getMousePositionInCanvas s1 (pageX event) (pageY event) True of
                Inl e \<Rightarrow> Inl e
              | Inr v \<Rightarrow> Inr (s1\<lparr>state := Pan, panStart := v, panEnd := v, listening := True\<rparr>))
           else Inr (s1\<lparr>effects := effects s1 @ [ConsoleLog], listening := True\<rparr>)
      else
        case useDrawingTexture project (s\<lparr>state := Draw\<rparr>) of
          Inl e \<Rightarrow> Inl e
        | Inr s1 \<Rightarrow>
            (case getMousePositionInCanvas s1 (pageX event) (pageY event) False of
               Inl e \<Rightarrow> Inl e
             | Inr mousePosition \<Rightarrow>
                 Inr (s1\<lparr>effects := effects s1 @ [MoveTo mousePosition, SetStrokeStyle],
                         drawingMapNeedsUpdate := True,
                         listening := True\<rparr>)))"

definition mousemove :: "MouseEvent \<Rightarrow> Chameleon \<Rightarrow> js_error + Chameleon" where
  "mousemove event s =
     (case state s of
        Idle \<Rightarrow> Inr s
      | Rotate \<Rightarrow>
          (case getMouseProjectionOnBall s (pageX event) (pageY event) of
             Inl e \<Rightarrow> Inl e
           | Inr (v, s1) \<Rightarrow> Inr (s1\<lparr>rotateEnd := v\<rparr>))
      | Pan \<Rightarrow>
          (case getMousePositionInCanvas s (pageX event) (pageY event) True of
             Inl e \<Rightarrow> Inl e
           | Inr v \<Rightarrow> Inr (s\<lparr>panEnd := v\<rparr>))
      | Draw \<Rightarrow>
          (case getMousePositionInCanvas s (pageX event) (pageY event) False of
             Inl e \<Rightarrow> Inl e
           | Inr mousePosition \<Rightarrow>
               Inr (s\<lparr>effects := effects s @ [LineTo mousePosition, Stroke],
                      drawingMapNeedsUpdate := True\<rparr>)))"

definition mouseup :: "MouseEvent \<Rightarrow> Chameleon \<Rightarrow> Chameleon" where
  "mouseup event s =
     (let s1 = update s;
          s2 = (if state s1 = Draw then s1\<lparr>effects := effects s1 @ [ShowCanvasInNewWindow]\<rparr> else s1)
      in s2\<lparr>state := Idle, listening := False\<rparr>)"

definition wheelStep :: "MouseEvent \<Rightarrow> real" where
  "wheelStep event =
     (case wheelDelta event of
        Some w \<Rightarrow> if w \<noteq> 0 then w / 40 else if detail event \<noteq> 0 then - detail event / 3 else 0
      | None \<Rightarrow> if detail event \<noteq> 0 then - detail event / 3 else 0)"

definition mousewheel :: "MouseEvent \<Rightarrow> Chameleon \<Rightarrow> Chameleon" where
  "mousewheel event s =
     (if state s \<noteq> Idle \<or> \<not> shiftKey event then s
      else
        let s1 = useViewingTexture s
        in s1\<lparr>zoomStart := zoomStart s1 + wheelStep event * 0.01\<rparr>)"

text \<open>
  \<open>handleResize\<close>; the bounding rectangle of the canvas in the page is the argument.
  The aspect ratio is read by the projection of three.js only, a parameter of this model;
  for a canvas of height zero JavaScript stores a non-finite aspect.
\<close>

definition handleResize :: "Box \<Rightarrow> Chameleon \<Rightarrow> Chameleon" where
  "handleResize rect s =
     useViewingTexture
       (s\<lparr>rendererSize := (canvasWidth s, canvasHeight s),
          camera := (camera s)\<lparr>aspect := canvasWidth s / canvasHeight s\<rparr>,
          canvasBox := rect\<rparr>)"

text \<open>
  The object as the constructor leaves it, for a geometry, a canvas of the given size
  and its bounding rectangle.
\<close>

definition halfUvs :: "Vector2 \<times> Vector2 \<times> Vector2" where
  "halfUvs = (Vector2 0.5 0.5, Vector2 0.5 0.5, Vector2 0.5 0.5)"

definition newChameleon :: "Vector3 list \<Rightarrow> Face3 list \<Rightarrow> real \<Rightarrow> real \<Rightarrow> Box \<Rightarrow> Chameleon" where
  "newChameleon vs fs w h rect =
     update (handleResize rect
       \<lparr>state = Idle,
        camera = \<lparr>position = Vector3 0 0 5, up = Vector3 0 1 0, aspect = 1,
                  orientation = (Vector3 0 0 5, Vector3 0 0 0, Vector3 0 1 0)\<rparr>,
        headLight = Vector3 0 0 0,
        rotateSpeed = 1.5, zoomSpeed = 1.2, panSpeed = 0.8,
        canvasBox = \<lparr>left = 0, top = 0, width = 0, height = 0\<rparr>,
        canvasWidth = w, canvasHeight = h,
        rendererSize = (0, 0),
        target = Vector3 0 0 0, eye = Vector3 0 0 0,
        rotateStart = Vector3 0 0 0, rotateEnd = Vector3 0 0 0,
        zoomStart = 0, zoomEnd = 0,
        panStart = Vector2 0 0, panEnd = Vector2 0 0,
        vertices = vs, faces = fs,
        drawingVertexUvs = replicate (length vs) (Vector3 0 0 0),
        drawingTextureUvs = replicate (length fs) halfUvs,
        viewingTextureUvs = replicate (length fs) halfUvs,
        meshMaterial = ViewingMaterial,
        faceVertexUvs0 = ViewingTextureUvs,
        uvsNeedUpdate = True,
        usingViewingTexture = True,
        drawingCanvasSize = (300, 150),
        drawingMapNeedsUpdate = False,
        listening = False,
        effects = []\<rparr>)"

section \<open>The Controls class\<close>

text \<open>
  \<open>Controls\<close> coordinates a texture manager, two camera controllers and a brush, whose
  classes (\<open>texture-manager.ts\<close>, \<open>camera-controls.ts\<close>, \<open>brushes.ts\<close>, \<open>common.ts\<close>)
  are not part of the source at hand.  Their states are type parameters (the texture
  manager's includes the mesh it is applied to) and their methods are the fields of a
  record of functions given to every handler.
\<close>

datatype ControlsState = Idle | Draw | View








section \<open>Example objects\<close>

text \<open>
  A canvas of 800 by 600 pixels at the page origin, and the object that the constructor
  builds for one triangle on it.
\<close>

definition exampleBox :: Box where
  "exampleBox = \<lparr>left = 0, top = 0, width = 800, height = 600\<rparr>"

definition exampleChameleon :: Chameleon where
  "exampleChameleon =
     newChameleon [Vector3 0 0 0, Vector3 1 0 0, Vector3 0 1 0] [\<lparr>a = 0, b = 1, c = 2\<rparr>]
       800 600 exampleBox"

definition exampleEvent :: "bool \<Rightarrow> nat \<Rightarrow> real \<Rightarrow> real \<Rightarrow> MouseEvent" where
  "exampleEvent shift btn px py =
     \<lparr>shiftKey = shift, button = btn, pageX = px, pageY = py, wheelDelta = None, detail = 0\<rparr>"

definition exampleWheel :: "bool \<Rightarrow> real \<Rightarrow> MouseEvent" where
  "exampleWheel shift delta =
     \<lparr>shiftKey = shift, button = 0, pageX = 400, pageY = 300, wheelDelta = Some delta, detail = 0\<rparr>"

text \<open>
  The projection of three.js, \<open>Vector3.project\<close>, for the camera of the constructor,
  \<open>PerspectiveCamera(75, aspect, 0.1, 10000)\<close>, while it is not rotated: it looks along
  the negative z axis with the y axis up, as a camera on the positive z axis that looks
  at the origin does.  The view transform subtracts the camera position; the frustum
  matrix scales x and y and divides by the depth.
\<close>

definition projectUnrotated :: "Camera \<Rightarrow> Vector3 \<Rightarrow> Vector3" where
  "projectUnrotated cam v =
     (let xv = x3 v - x3 (position cam);
          yv = y3 v - y3 (position cam);
          zv = z3 v - z3 (position cam);
          t = tan (75 / 2 / 180 * pi);
          w = - zv
      in Vector3 (xv / (t * aspect cam) / w) (yv / t / w)
                 ((- (10000 + 0.1) / (10000 - 0.1) * zv - 2 * 10000 * 0.1 / (10000 - 0.1)) / w))"

text \<open>
  The example after a shift-press of the secondary button at \<open>(400, 300)\<close> and a move to
  \<open>(420, 300)\<close>.
\<close>

definition examplePanning :: Chameleon where
  "examplePanning =
     exampleChameleon\<lparr>state := Pan, panStart := Vector2 (1 / 2) (1 / 2),
                        panEnd := Vector2 (21 / 40) (1 / 2), listening := True\<rparr>"





section \<open>Event sequences and the geometry invariant\<close>

text \<open>
  Every run of the two loops of \<open>_useDrawingTexture\<close> follows one render of the drawing
  texture scene, and nothing else renders that scene: the number of these renders in the
  effect log is the number of times the drawing UV set has been recomputed.
\<close>

definition uvRecomputations :: "Chameleon \<Rightarrow> nat" where
  "uvRecomputations s = count_list (effects s) RenderDrawingTextureScene"

text \<open>The mousemove events of one gesture, handled in order.\<close>

fun mousemoves :: "MouseEvent list \<Rightarrow> Chameleon \<Rightarrow> js_error + Chameleon" where
  "mousemoves [] s = Inr s"
| "mousemoves (event # events) s =
     (case mousemove event s of Inl e \<Rightarrow> Inl e | Inr s1 \<Rightarrow> mousemoves events s1)"

text \<open>
  The constructor makes one scratch vector per vertex and one UV triple per face, and the
  faces of a geometry index its vertices.
\<close>

definition wellFormed :: "Chameleon \<Rightarrow> bool" where
  "wellFormed s \<longleftrightarrow>
     length (drawingVertexUvs s) = length (vertices s)
     \<and> length (drawingTextureUvs s) = length (faces s)
     \<and> (\<forall>f \<in> set (faces s). a f < length (vertices s) \<and> b f < length (vertices s)
            \<and> c f < length (vertices s))"

section \<open>More example objects\<close>

text \<open>
  The example after the press that starts a stroke, after the release that ends it, and
  after the press that starts a second stroke.
\<close>

definition examplePressed :: Chameleon where
  "examplePressed =
     projr (mousedown projectUnrotated (exampleEvent False 0 400 300) exampleChameleon)"

definition exampleStroked :: Chameleon where
  "exampleStroked = mouseup (exampleEvent False 0 400 300) examplePressed"

definition examplePressedAgain :: Chameleon where
  "examplePressedAgain =
     projr (mousedown projectUnrotated (exampleEvent False 0 410 300) exampleStroked)"



text \<open>The panning example after the release and a second shift-press of the secondary button.\<close>

definition exampleRepanned :: Chameleon where
  "exampleRepanned =
     projr (mousedown projectUnrotated (exampleEvent True 2 400 300)
              (mouseup (exampleEvent True 2 420 300) examplePanning))"

text \<open>
  The example after a shift-press of the primary button at the centre of the canvas, and
  after a shift-press at the left edge, \<open>(0, 300)\<close>, followed by a move to the right
  edge, \<open>(800, 300)\<close>.
\<close>

definition exampleRotating :: Chameleon where
  "exampleRotating =
     exampleChameleon\<lparr>state := Rotate, eye := Vector3 0 0 1, rotateStart := Vector3 0 0 1,
                        rotateEnd := Vector3 0 0 1, listening := True\<rparr>"

definition exampleRotatePressed :: Chameleon where
  "exampleRotatePressed =
     exampleChameleon\<lparr>state := Rotate, eye := Vector3 0 0 0, rotateStart := Vector3 (- 1) 0 0,
                        rotateEnd := Vector3 (- 1) 0 0, listening := True\<rparr>"

definition exampleRotateDragged :: Chameleon where
  "exampleRotateDragged = exampleRotatePressed\<lparr>rotateEnd := Vector3 1 0 0\<rparr>"

section \<open>Properties\<close>

subsection \<open>Evaluation of the example\<close>

lemma length3_simps:
  "length3 (Vector3 0 0 0) = 0"
  "length3 (Vector3 0 0 5) = 5"
  "length3 (Vector3 0 1 0) = 1"
  by (simp_all add: length3_def real_sqrt_unique)

lemma exampleChameleon_eq:
  "exampleChameleon =
    \<lparr>state = ChameleonState.Idle,
     camera = \<lparr>position = Vector3 0 0 5, up = Vector3 0 1 0, aspect = 4 / 3,
               orientation = (Vector3 0 0 5, Vector3 0 0 0, Vector3 0 1 0)\<rparr>,
     headLight = Vector3 0 0 5, rotateSpeed = 3 / 2, zoomSpeed = 6 / 5, panSpeed = 4 / 5,
     canvasBox = \<lparr>left = 0, top = 0, width = 800, height = 600\<rparr>,
     canvasWidth = 800, canvasHeight = 600, rendererSize = (800, 600),
     target = Vector3 0 0 0, eye = Vector3 0 0 5,
     rotateStart = Vector3 0 0 0, rotateEnd = Vector3 0 0 0,
     zoomStart = 0, zoomEnd = 0, panStart = Vector2 0 0, panEnd = Vector2 0 0,
     vertices = [Vector3 0 0 0, Vector3 1 0 0, Vector3 0 1 0],
     faces = [\<lparr>a = 0, b = 1, c = 2\<rparr>],
     drawingVertexUvs = [Vector3 0 0 0, Vector3 0 0 0, Vector3 0 0 0],
     drawingTextureUvs = [(Vector2 (1 / 2) (1 / 2), Vector2 (1 / 2) (1 / 2), Vector2 (1 / 2) (1 / 2))],
     viewingTextureUvs = [(Vector2 (1 / 2) (1 / 2), Vector2 (1 / 2) (1 / 2), Vector2 (1 / 2) (1 / 2))],
     meshMaterial = ViewingMaterial, faceVertexUvs0 = ViewingTextureUvs,
     uvsNeedUpdate = True, usingViewingTexture = True,
     drawingCanvasSize = (300, 150), drawingMapNeedsUpdate = False,
     listening = False, effects = [RenderScene, DrawImage]\<rparr>"
  by (simp add: exampleChameleon_def newChameleon_def update_def handleResize_def useViewingTexture_def
    rotateCamera_def rotateAngle_def js_div_def length3_simps zoomCamera_def zoomFactor_def panCamera_def
    lengthSq2_def sub2_def finishUpdate_def sub3_def add3_def Let_def halfUvs_def exampleBox_def)

subsection \<open>Zoom\<close>

text \<open>
  Claim C6.  \<open>zoomCamera\<close> computes the factor \<open>1 + (zoomEnd - zoomStart) * zoomSpeed\<close>.
  When the factor is at most \<open>0\<close> the object is left as it is: neither the eye vector nor
  \<open>zoomStart\<close> changes.  When the factor is positive and not \<open>1\<close>, the eye vector is
  scaled by the factor, \<open>zoomStart\<close> becomes \<open>zoomEnd\<close>, and nothing else changes.
\<close>

theorem zoomCamera_guard:
  "zoomFactor s = 1 + (zoomEnd s - zoomStart s) * zoomSpeed s
   \<and> (zoomFactor s \<le> 0 \<longrightarrow> zoomCamera s = s)
   \<and> (zoomFactor s > 0 \<and> zoomFactor s \<noteq> 1 \<longrightarrow>
        zoomCamera s = s\<lparr>eye := multiplyScalar3 (eye s) (zoomFactor s), zoomStart := zoomEnd s\<rparr>)"
  by (simp add: zoomCamera_def zoomFactor_def Let_def)

lemma wheel_far: "zoomFactor (mousewheel (exampleWheel True 4000) exampleChameleon) = - 1 / 5"
  by (simp add: exampleChameleon_eq mousewheel_def exampleWheel_def useViewingTexture_def
      wheelStep_def zoomFactor_def Let_def)

lemma wheel_near: "zoomFactor (mousewheel (exampleWheel True 120) exampleChameleon) = 241 / 250"
  by (simp add: exampleChameleon_eq mousewheel_def exampleWheel_def useViewingTexture_def
      wheelStep_def zoomFactor_def Let_def)

theorem zoomCamera_guard_witness:
  "zoomFactor (mousewheel (exampleWheel True 4000) exampleChameleon) \<le> 0
   \<and> zoomCamera (mousewheel (exampleWheel True 4000) exampleChameleon)
       = mousewheel (exampleWheel True 4000) exampleChameleon
   \<and> zoomFactor (mousewheel (exampleWheel True 120) exampleChameleon) > 0
   \<and> zoomFactor (mousewheel (exampleWheel True 120) exampleChameleon) \<noteq> 1
   \<and> eye (zoomCamera (mousewheel (exampleWheel True 120) exampleChameleon))
       = Vector3 0 0 (241 / 50)
   \<and> zoomStart (zoomCamera (mousewheel (exampleWheel True 120) exampleChameleon)) = 0"
proof -
  let ?far = "mousewheel (exampleWheel True 4000) exampleChameleon"
  let ?near = "mousewheel (exampleWheel True 120) exampleChameleon"
  have far: "zoomFactor ?far \<le> 0" by (simp add: wheel_far)
  have near: "zoomFactor ?near > 0 \<and> zoomFactor ?near \<noteq> 1" by (simp add: wheel_near)
  from zoomCamera_guard [of ?far] far have 1: "zoomCamera ?far = ?far" by blast
  from zoomCamera_guard [of ?near] near
  have 2: "zoomCamera ?near = ?near\<lparr>eye := multiplyScalar3 (eye ?near) (zoomFactor ?near),
             zoomStart := zoomEnd ?near\<rparr>" by blast
  have 3: "eye ?near = Vector3 0 0 5" "zoomEnd ?near = 0"
    by (simp_all add: exampleChameleon_eq mousewheel_def exampleWheel_def useViewingTexture_def Let_def)
  show ?thesis using far near 1
    by (simp add: 2 3 wheel_near multiplyScalar3_def)
qed

subsection \<open>Pan\<close>



lemma length3_more:
  "length3 (Vector3 (- 5) 0 0) = 5"
  "length3 (Vector3 5 0 0) = 5"
  "length3 (Vector3 1 0 0) = 1"
  "length3 (Vector3 (- 1) 0 0) = 1"
  "length3 (Vector3 0 0 1) = 1"
  by (simp_all add: length3_def real_sqrt_unique)

lemma examplePanning_reached:
  "\<exists>s1. mousedown projectUnrotated (exampleEvent True 2 400 300) exampleChameleon = Inr s1
        \<and> mousemove (exampleEvent True 2 420 300) s1 = Inr examplePanning"
  by (simp add: examplePanning_def exampleChameleon_eq mousedown_def mousemove_def exampleEvent_def
    useViewingTexture_def getMousePositionInCanvas_def Let_def)




subsection \<open>The state machine of Controls\<close>




subsection \<open>Wheel events\<close>







subsection \<open>The drawing texture\<close>

lemma projectVertices_result:
  "\<forall>i \<in> set is. i < length uvs \<Longrightarrow>
   \<exists>uvs'. projectVertices proj vs is uvs = Inr uvs' \<and> length uvs' = length uvs
     \<and> (\<forall>j < length uvs. uvs' ! j = (if j \<in> set is then toTextureSpace (proj (vs ! j)) else uvs ! j))"
proof (induction "is" arbitrary: uvs)
  case Nil
  then show ?case by simp
next
  case (Cons i "is")
  let ?uvs1 = "uvs[i := toTextureSpace (proj (vs ! i))]"
  from Cons.prems have i: "i < length uvs" and rest: "\<forall>k \<in> set is. k < length ?uvs1"
    by simp_all
  from Cons.IH [OF rest] obtain uvs' where
    r: "projectVertices proj vs is ?uvs1 = Inr uvs'" and l: "length uvs' = length ?uvs1"
    and v: "\<forall>j < length ?uvs1. uvs' ! j
              = (if j \<in> set is then toTextureSpace (proj (vs ! j)) else ?uvs1 ! j)"
    by blast
  have "projectVertices proj vs (i # is) uvs = Inr uvs'"
    using i r by simp
  moreover have "length uvs' = length uvs"
    using l by simp
  moreover have "\<forall>j < length uvs. uvs' ! j
       = (if j \<in> set (i # is) then toTextureSpace (proj (vs ! j)) else uvs ! j)"
  proof (intro allI impI)
    fix j assume j: "j < length uvs"
    with v have "uvs' ! j = (if j \<in> set is then toTextureSpace (proj (vs ! j)) else ?uvs1 ! j)"
      by simp
    then show "uvs' ! j = (if j \<in> set (i # is) then toTextureSpace (proj (vs ! j)) else uvs ! j)"
      using j by (cases "j = i") simp_all
  qed
  ultimately show ?case by blast
qed

lemma copyFaceUvs_result:
  "\<forall>i \<in> set is. i < length tuvs \<and> a (fs ! i) < length vuvs \<and> b (fs ! i) < length vuvs
      \<and> c (fs ! i) < length vuvs \<Longrightarrow>
   \<exists>tuvs'. copyFaceUvs fs vuvs is tuvs = Inr tuvs' \<and> length tuvs' = length tuvs
     \<and> (\<forall>j < length tuvs. tuvs' ! j
           = (if j \<in> set is
              then (copy2 (vuvs ! a (fs ! j)), copy2 (vuvs ! b (fs ! j)), copy2 (vuvs ! c (fs ! j)))
              else tuvs ! j))"
proof (induction "is" arbitrary: tuvs)
  case Nil
  then show ?case by simp
next
  case (Cons i "is")
  let ?t1 = "tuvs[i := (copy2 (vuvs ! a (fs ! i)), copy2 (vuvs ! b (fs ! i)), copy2 (vuvs ! c (fs ! i)))]"
  from Cons.prems have i: "i < length tuvs \<and> a (fs ! i) < length vuvs \<and> b (fs ! i) < length vuvs
      \<and> c (fs ! i) < length vuvs"
    and rest: "\<forall>k \<in> set is. k < length ?t1 \<and> a (fs ! k) < length vuvs \<and> b (fs ! k) < length vuvs
      \<and> c (fs ! k) < length vuvs"
    by simp_all
  from Cons.IH [OF rest] obtain tuvs' where
    r: "copyFaceUvs fs vuvs is ?t1 = Inr tuvs'" and l: "length tuvs' = length ?t1"
    and v: "\<forall>j < length ?t1. tuvs' ! j
              = (if j \<in> set is
                 then (copy2 (vuvs ! a (fs ! j)), copy2 (vuvs ! b (fs ! j)), copy2 (vuvs ! c (fs ! j)))
                 else ?t1 ! j)"
    by blast
  have "copyFaceUvs fs vuvs (i # is) tuvs = Inr tuvs'"
    using i r by simp
  moreover have "length tuvs' = length tuvs"
    using l by simp
  moreover have "\<forall>j < length tuvs. tuvs' ! j
       = (if j \<in> set (i # is)
          then (copy2 (vuvs ! a (fs ! j)), copy2 (vuvs ! b (fs ! j)), copy2 (vuvs ! c (fs ! j)))
          else tuvs ! j)"
  proof (intro allI impI)
    fix j assume j: "j < length tuvs"
    with v have "tuvs' ! j = (if j \<in> set is
                 then (copy2 (vuvs ! a (fs ! j)), copy2 (vuvs ! b (fs ! j)), copy2 (vuvs ! c (fs ! j)))
                 else ?t1 ! j)"
      by simp
    then show "tuvs' ! j = (if j \<in> set (i # is)
          then (copy2 (vuvs ! a (fs ! j)), copy2 (vuvs ! b (fs ! j)), copy2 (vuvs ! c (fs ! j)))
          else tuvs ! j)"
      using j by (cases "j = i") simp_all
  qed
  ultimately show ?case by blast
qed


lemma useDrawingTexture_wellFormed:
  assumes v: "usingViewingTexture s" and w: "wellFormed s"
  shows "\<exists>vuvs tuvs.
     useDrawingTexture project s =
       Inr (s\<lparr>effects := effects s @ [RenderDrawingTextureScene, DrawImage],
              drawingCanvasSize := rendererSize s,
              drawingMapNeedsUpdate := True,
              drawingVertexUvs := vuvs,
              drawingTextureUvs := tuvs,
              meshMaterial := DrawingMaterial,
              faceVertexUvs0 := DrawingTextureUvs,
              uvsNeedUpdate := True,
              usingViewingTexture := False\<rparr>)
     \<and> length vuvs = length (vertices s) \<and> length tuvs = length (faces s)
     \<and> (\<forall>i < length (vertices s). vuvs ! i = toTextureSpace (project (camera s) (vertices s ! i)))
     \<and> (\<forall>i < length (faces s). tuvs ! i
           = (copy2 (vuvs ! a (faces s ! i)), copy2 (vuvs ! b (faces s ! i)),
              copy2 (vuvs ! c (faces s ! i))))"
proof -
  from w have lv: "length (drawingVertexUvs s) = length (vertices s)"
    and lt: "length (drawingTextureUvs s) = length (faces s)"
    and fr: "\<forall>f \<in> set (faces s). a f < length (vertices s) \<and> b f < length (vertices s)
            \<and> c f < length (vertices s)"
    by (simp_all add: wellFormed_def)
  have "\<forall>i \<in> set [0..<length (vertices s)]. i < length (drawingVertexUvs s)"
    using lv by simp
  from projectVertices_result [OF this, of "project (camera s)" "vertices s"] obtain vuvs where
    pv: "projectVertices (project (camera s)) (vertices s) [0..<length (vertices s)]
           (drawingVertexUvs s) = Inr vuvs"
    and lvu: "length vuvs = length (drawingVertexUvs s)"
    and vv: "\<forall>j < length (drawingVertexUvs s). vuvs ! j
        = (if j \<in> set [0..<length (vertices s)]
           then toTextureSpace (project (camera s) (vertices s ! j)) else drawingVertexUvs s ! j)"
    by blast
  have "\<forall>i \<in> set [0..<length (faces s)]. i < length (drawingTextureUvs s)
          \<and> a (faces s ! i) < length vuvs \<and> b (faces s ! i) < length vuvs
          \<and> c (faces s ! i) < length vuvs"
    using lt lvu lv fr by simp
  from copyFaceUvs_result [OF this] obtain tuvs where
    cf: "copyFaceUvs (faces s) vuvs [0..<length (faces s)] (drawingTextureUvs s) = Inr tuvs"
    and ltu: "length tuvs = length (drawingTextureUvs s)"
    and tv: "\<forall>j < length (drawingTextureUvs s). tuvs ! j
        = (if j \<in> set [0..<length (faces s)]
           then (copy2 (vuvs ! a (faces s ! j)), copy2 (vuvs ! b (faces s ! j)),
                 copy2 (vuvs ! c (faces s ! j)))
           else drawingTextureUvs s ! j)"
    by blast
  have 1: "\<forall>i < length (vertices s). vuvs ! i = toTextureSpace (project (camera s) (vertices s ! i))"
    using vv lv by simp
  have 2: "\<forall>i < length (faces s). tuvs ! i
           = (copy2 (vuvs ! a (faces s ! i)), copy2 (vuvs ! b (faces s ! i)),
              copy2 (vuvs ! c (faces s ! i)))"
    using tv lt by simp
  have "useDrawingTexture project s =
       Inr (s\<lparr>effects := effects s @ [RenderDrawingTextureScene, DrawImage],
              drawingCanvasSize := rendererSize s,
              drawingMapNeedsUpdate := True,
              drawingVertexUvs := vuvs,
              drawingTextureUvs := tuvs,
              meshMaterial := DrawingMaterial,
              faceVertexUvs0 := DrawingTextureUvs,
              uvsNeedUpdate := True,
              usingViewingTexture := False\<rparr>)"
    using v pv cf by (simp add: useDrawingTexture_def)
  with 1 2 lvu ltu lv lt show ?thesis by auto
qed





subsection \<open>Switching textures\<close>

lemma count_list_app: "count_list (xs @ ys) x = count_list xs x + count_list ys x"
  by (induction xs) auto

lemma useViewingTexture_uvs:
  "drawingTextureUvs (useViewingTexture s) = drawingTextureUvs s"
  "drawingVertexUvs (useViewingTexture s) = drawingVertexUvs s"
  "uvRecomputations (useViewingTexture s) = uvRecomputations s"
  "state (useViewingTexture s) = state s"
  by (simp_all add: useViewingTexture_def uvRecomputations_def count_list_app)

lemma useViewingTexture_effects:
  "count_list (effects (useViewingTexture s)) RenderDrawingTextureScene
     = count_list (effects s) RenderDrawingTextureScene"
  by (simp add: useViewingTexture_def)

lemma rotateCamera_uvs:
  "drawingTextureUvs (rotateCamera s) = drawingTextureUvs s"
  "drawingVertexUvs (rotateCamera s) = drawingVertexUvs s"
  "effects (rotateCamera s) = effects s"
  "state (rotateCamera s) = state s"
  "usingViewingTexture (rotateCamera s) = usingViewingTexture s"
  by (simp_all add: rotateCamera_def Let_def split: option.splits)

lemma zoomCamera_uvs:
  "drawingTextureUvs (zoomCamera s) = drawingTextureUvs s"
  "drawingVertexUvs (zoomCamera s) = drawingVertexUvs s"
  "effects (zoomCamera s) = effects s"
  "state (zoomCamera s) = state s"
  "usingViewingTexture (zoomCamera s) = usingViewingTexture s"
  by (simp_all add: zoomCamera_def Let_def)

lemma panCamera_uvs:
  "drawingTextureUvs (panCamera s) = drawingTextureUvs s"
  "drawingVertexUvs (panCamera s) = drawingVertexUvs s"
  "effects (panCamera s) = effects s"
  "state (panCamera s) = state s"
  "usingViewingTexture (panCamera s) = usingViewingTexture s"
  by (simp_all add: panCamera_def)

lemma update_uvs:
  "drawingTextureUvs (update s) = drawingTextureUvs s"
  "drawingVertexUvs (update s) = drawingVertexUvs s"
  "effects (update s) = effects s @ [RenderScene, DrawImage]"
  "state (update s) = state s"
  "usingViewingTexture (update s) = usingViewingTexture s"
  by (simp_all add: update_def finishUpdate_def Let_def rotateCamera_uvs zoomCamera_uvs panCamera_uvs)

lemma mouseup_uvs:
  "drawingTextureUvs (mouseup event s) = drawingTextureUvs s"
  "drawingVertexUvs (mouseup event s) = drawingVertexUvs s"
  "uvRecomputations (mouseup event s) = uvRecomputations s"
  "state (mouseup event s) = ChameleonState.Idle"
  "usingViewingTexture (mouseup event s) = usingViewingTexture s"
  by (simp_all add: mouseup_def Let_def update_uvs uvRecomputations_def count_list_app)

lemma getMouseProjectionOnBall_frame:
  assumes "getMouseProjectionOnBall s px py = Inr (v, s')"
  shows "\<exists>e. s' = s\<lparr>eye := e\<rparr>"
proof (cases "mouseOnBall (canvasBox s) px py")
  case (Inl e)
  with assms show ?thesis by (simp add: getMouseProjectionOnBall_def)
next
  case (Inr m)
  with assms show ?thesis by (simp add: getMouseProjectionOnBall_def Let_def) blast
qed


lemma mousedown_rotate:
  "state s = ChameleonState.Idle \<Longrightarrow> shiftKey event \<Longrightarrow> button event = 0 \<Longrightarrow>
   mousedown project event s =
     (case getMouseProjectionOnBall (useViewingTexture s\<lparr>state := Rotate\<rparr>) (pageX event) (pageY event) of
        Inl e \<Rightarrow> Inl e
      | Inr (v, s2) \<Rightarrow> Inr (s2\<lparr>rotateStart := v, rotateEnd := v, listening := True\<rparr>))"
  by (simp add: mousedown_def Let_def)

lemma mousedown_pan:
  "state s = ChameleonState.Idle \<Longrightarrow> shiftKey event \<Longrightarrow> button event = 2 \<Longrightarrow>
   mousedown project event s =
     (case getMousePositionInCanvas (useViewingTexture s) (pageX event) (pageY event) True of
        Inl e \<Rightarrow> Inl e
      | Inr v \<Rightarrow> Inr (useViewingTexture s\<lparr>state := Pan, panStart := v, panEnd := v, listening := True\<rparr>))"
  by (simp add: mousedown_def Let_def)

lemma mousedown_other:
  "state s = ChameleonState.Idle \<Longrightarrow> shiftKey event \<Longrightarrow> button event \<noteq> 0 \<Longrightarrow> button event \<noteq> 2 \<Longrightarrow>
   mousedown project event s =
     Inr (useViewingTexture s\<lparr>effects := effects (useViewingTexture s) @ [ConsoleLog], listening := True\<rparr>)"
  by (simp add: mousedown_def Let_def)

lemma mousedown_draw:
  "state s = ChameleonState.Idle \<Longrightarrow> \<not> shiftKey event \<Longrightarrow>
   mousedown project event s =
     (case useDrawingTexture project (s\<lparr>state := ChameleonState.Draw\<rparr>) of
        Inl e \<Rightarrow> Inl e
      | Inr s1 \<Rightarrow>
          (case getMousePositionInCanvas s1 (pageX event) (pageY event) False of
             Inl e \<Rightarrow> Inl e
           | Inr mousePosition \<Rightarrow>
               Inr (s1\<lparr>effects := effects s1 @ [MoveTo mousePosition, SetStrokeStyle],
                       drawingMapNeedsUpdate := True,
                       listening := True\<rparr>)))"
  by (simp add: mousedown_def Let_def)

lemma mousedown_shift_uvs:
  assumes sh: "shiftKey event" and md: "mousedown project event s = Inr s'"
  shows "drawingTextureUvs s' = drawingTextureUvs s \<and> drawingVertexUvs s' = drawingVertexUvs s
         \<and> uvRecomputations s' = uvRecomputations s"
proof (cases "state s = ChameleonState.Idle")
  case False
  with md show ?thesis by (simp add: mousedown_def)
next
  case idle: True
  consider "button event = 0" | "button event = 2" | "button event \<noteq> 0 \<and> button event \<noteq> 2"
    by blast
  then show ?thesis
  proof cases
    case 1
    from md obtain v s2 where
      g: "getMouseProjectionOnBall (useViewingTexture s\<lparr>state := Rotate\<rparr>) (pageX event) (pageY event)
            = Inr (v, s2)"
      and s': "s' = s2\<lparr>rotateStart := v, rotateEnd := v, listening := True\<rparr>"
      unfolding mousedown_rotate [OF idle sh 1] by (auto split: sum.splits)
    from getMouseProjectionOnBall_frame [OF g] obtain e where
      "s2 = (useViewingTexture s\<lparr>state := Rotate\<rparr>)\<lparr>eye := e\<rparr>" by blast
    with s' show ?thesis
      by (simp add: useViewingTexture_uvs uvRecomputations_def useViewingTexture_effects)
  next
    case 2
    from md obtain v where
      s': "s' = useViewingTexture s\<lparr>state := Pan, panStart := v, panEnd := v, listening := True\<rparr>"
      unfolding mousedown_pan [OF idle sh 2] by (auto split: sum.splits)
    then show ?thesis
      by (simp add: useViewingTexture_uvs uvRecomputations_def useViewingTexture_effects)
  next
    case 3
    with md have
      s': "s' = useViewingTexture s\<lparr>effects := effects (useViewingTexture s) @ [ConsoleLog], listening := True\<rparr>"
      by (simp add: mousedown_other [OF idle sh])
    then show ?thesis
      by (simp add: useViewingTexture_uvs uvRecomputations_def useViewingTexture_effects)
  qed
qed


lemma useDrawingTexture_Inr:
  assumes "useDrawingTexture project s = Inr s1"
  shows "state s1 = state s \<and> \<not> usingViewingTexture s1
         \<and> uvRecomputations s1 = uvRecomputations s + (if usingViewingTexture s then 1 else 0)"
proof (cases "usingViewingTexture s")
  case False
  with assms show ?thesis by (simp add: useDrawingTexture_def)
next
  case True
  with assms obtain vuvs tuvs where
    "s1 = s\<lparr>effects := effects s @ [RenderDrawingTextureScene, DrawImage],
            drawingCanvasSize := rendererSize s,
            drawingMapNeedsUpdate := True,
            drawingVertexUvs := vuvs,
            drawingTextureUvs := tuvs,
            meshMaterial := DrawingMaterial,
            faceVertexUvs0 := DrawingTextureUvs,
            uvsNeedUpdate := True,
            usingViewingTexture := False\<rparr>"
    by (auto simp add: useDrawingTexture_def split: sum.splits)
  with True show ?thesis by (simp add: uvRecomputations_def)
qed

lemma getMousePositionInCanvas_plain:
  "\<exists>v. getMousePositionInCanvas s px py False = Inr v"
  by (simp add: getMousePositionInCanvas_def Let_def)

lemma mousedown_draw_Inr:
  assumes idle: "state s = ChameleonState.Idle" and sh: "\<not> shiftKey event"
    and md: "mousedown project event s = Inr s1"
  shows "state s1 = ChameleonState.Draw \<and> \<not> usingViewingTexture s1
         \<and> uvRecomputations s1 = uvRecomputations s + (if usingViewingTexture s then 1 else 0)"
proof -
  from md obtain s0 v where
    u: "useDrawingTexture project (s\<lparr>state := ChameleonState.Draw\<rparr>) = Inr s0"
    and s1: "s1 = s0\<lparr>effects := effects s0 @ [MoveTo v, SetStrokeStyle],
                    drawingMapNeedsUpdate := True, listening := True\<rparr>"
    unfolding mousedown_draw [OF idle sh] by (auto split: sum.splits)
  from useDrawingTexture_Inr [OF u] s1 show ?thesis
    by (simp add: uvRecomputations_def)
qed

lemma mousemove_draw:
  assumes "state s = ChameleonState.Draw"
  shows "\<exists>s'. mousemove event s = Inr s' \<and> state s' = ChameleonState.Draw
           \<and> uvRecomputations s' = uvRecomputations s
           \<and> drawingTextureUvs s' = drawingTextureUvs s
           \<and> drawingVertexUvs s' = drawingVertexUvs s"
proof -
  from getMousePositionInCanvas_plain obtain v where
    "getMousePositionInCanvas s (pageX event) (pageY event) False = Inr v" by blast
  with assms show ?thesis
    by (simp add: mousemove_def uvRecomputations_def)
qed

lemma mousemoves_draw:
  "state s = ChameleonState.Draw \<Longrightarrow>
   \<exists>s'. mousemoves events s = Inr s' \<and> state s' = ChameleonState.Draw
           \<and> uvRecomputations s' = uvRecomputations s
           \<and> drawingTextureUvs s' = drawingTextureUvs s
           \<and> drawingVertexUvs s' = drawingVertexUvs s"
proof (induction events arbitrary: s)
  case Nil
  then show ?case by simp
next
  case (Cons event events)
  from mousemove_draw [OF Cons.prems, of event] obtain s1 where
    m: "mousemove event s = Inr s1" and d: "state s1 = ChameleonState.Draw"
    and k: "uvRecomputations s1 = uvRecomputations s" "drawingTextureUvs s1 = drawingTextureUvs s"
      "drawingVertexUvs s1 = drawingVertexUvs s"
    by blast
  from Cons.IH [OF d] obtain s' where
    "mousemoves events s1 = Inr s'" "state s' = ChameleonState.Draw"
    "uvRecomputations s' = uvRecomputations s1" "drawingTextureUvs s' = drawingTextureUvs s1"
    "drawingVertexUvs s' = drawingVertexUvs s1"
    by blast
  with m k show ?case by simp
qed

text \<open>
  Claim C3, as amended.  \<open>_useViewingTexture\<close> with the viewing texture in use returns the
  object as it is, and so does \<open>_useDrawingTexture\<close> with the drawing texture in use.
  A release followed by a shift-press (from a view gesture back into a view gesture)
  leaves the drawing UV set and the scratch vectors as they were and recomputes nothing.
  A stroke (a press without shift in state \<open>Idle\<close>, any moves, a release) ends in state
  \<open>Idle\<close>, with the drawing UV set that the press left, and recomputes the drawing UV set
  once when the viewing texture was in use at the press and not at all when the drawing
  texture was already in use.
\<close>

theorem texture_switch_noop:
  "(usingViewingTexture s \<longrightarrow> useViewingTexture s = s)
   \<and> (\<not> usingViewingTexture s \<longrightarrow> useDrawingTexture project s = Inr s)
   \<and> (shiftKey event \<and> mousedown project event (mouseup event0 s) = Inr s' \<longrightarrow>
        drawingTextureUvs s' = drawingTextureUvs s \<and> drawingVertexUvs s' = drawingVertexUvs s
        \<and> uvRecomputations s' = uvRecomputations s)
   \<and> (state s = ChameleonState.Idle \<and> \<not> shiftKey event \<and> mousedown project event s = Inr s1 \<longrightarrow>
        (\<exists>s2. mousemoves events s1 = Inr s2
           \<and> state (mouseup event0 s2) = ChameleonState.Idle
           \<and> drawingTextureUvs (mouseup event0 s2) = drawingTextureUvs s1
           \<and> uvRecomputations (mouseup event0 s2)
               = uvRecomputations s + (if usingViewingTexture s then 1 else 0)))"
proof (intro conjI impI)
  show "usingViewingTexture s \<Longrightarrow> useViewingTexture s = s"
    by (simp add: useViewingTexture_def)
  show "\<not> usingViewingTexture s \<Longrightarrow> useDrawingTexture project s = Inr s"
    by (simp add: useDrawingTexture_def)
next
  assume h: "shiftKey event \<and> mousedown project event (mouseup event0 s) = Inr s'"
  from mousedown_shift_uvs [of event project "mouseup event0 s" s'] h
  show "drawingTextureUvs s' = drawingTextureUvs s" "drawingVertexUvs s' = drawingVertexUvs s"
    "uvRecomputations s' = uvRecomputations s"
    by (simp_all add: mouseup_uvs)
next
  assume h: "state s = ChameleonState.Idle \<and> \<not> shiftKey event \<and> mousedown project event s = Inr s1"
  from mousedown_draw_Inr [of s event project s1] h
  have d: "state s1 = ChameleonState.Draw"
    and k: "uvRecomputations s1 = uvRecomputations s + (if usingViewingTexture s then 1 else 0)"
    by simp_all
  from mousemoves_draw [OF d, of events] obtain s2 where
    "mousemoves events s1 = Inr s2" "uvRecomputations s2 = uvRecomputations s1"
    "drawingTextureUvs s2 = drawingTextureUvs s1"
    by blast
  with k show "\<exists>s2. mousemoves events s1 = Inr s2
           \<and> state (mouseup event0 s2) = ChameleonState.Idle
           \<and> drawingTextureUvs (mouseup event0 s2) = drawingTextureUvs s1
           \<and> uvRecomputations (mouseup event0 s2)
               = uvRecomputations s + (if usingViewingTexture s then 1 else 0)"
    by (simp add: mouseup_uvs)
qed


lemma wellFormed_state: "wellFormed (s\<lparr>state := st\<rparr>) = wellFormed s"
  by (simp add: wellFormed_def)

lemma mousedown_draw_total:
  assumes idle: "state s = ChameleonState.Idle" and sh: "\<not> shiftKey event" and w: "wellFormed s"
  shows "\<exists>s1. mousedown project event s = Inr s1"
proof (cases "usingViewingTexture s")
  case True
  then have "usingViewingTexture (s\<lparr>state := ChameleonState.Draw\<rparr>)" by simp
  from useDrawingTexture_wellFormed [OF this, of project] w obtain s0 where
    u: "useDrawingTexture project (s\<lparr>state := ChameleonState.Draw\<rparr>) = Inr s0"
    by (auto simp add: wellFormed_state)
  from getMousePositionInCanvas_plain obtain v where
    "getMousePositionInCanvas s0 (pageX event) (pageY event) False = Inr v" by blast
  with u show ?thesis by (simp add: mousedown_draw [OF idle sh])
next
  case False
  then have u: "useDrawingTexture project (s\<lparr>state := ChameleonState.Draw\<rparr>)
                  = Inr (s\<lparr>state := ChameleonState.Draw\<rparr>)"
    by (simp add: useDrawingTexture_def)
  from getMousePositionInCanvas_plain obtain v where
    "getMousePositionInCanvas (s\<lparr>state := ChameleonState.Draw\<rparr>) (pageX event) (pageY event) False = Inr v"
    by blast
  with u show ?thesis by (simp add: mousedown_draw [OF idle sh])
qed

lemma wellFormed_mousedown_draw:
  assumes idle: "state s = ChameleonState.Idle" and sh: "\<not> shiftKey event" and w: "wellFormed s"
    and md: "mousedown project event s = Inr s1"
  shows "wellFormed s1"
proof -
  from md obtain s0 v where
    u: "useDrawingTexture project (s\<lparr>state := ChameleonState.Draw\<rparr>) = Inr s0"
    and s1: "s1 = s0\<lparr>effects := effects s0 @ [MoveTo v, SetStrokeStyle],
                    drawingMapNeedsUpdate := True, listening := True\<rparr>"
    unfolding mousedown_draw [OF idle sh] by (auto split: sum.splits)
  have "wellFormed s0"
  proof (cases "usingViewingTexture s")
    case False
    with u have "s0 = s\<lparr>state := ChameleonState.Draw\<rparr>" by (simp add: useDrawingTexture_def)
    with w show ?thesis by (simp add: wellFormed_state)
  next
    case True
    then have "usingViewingTexture (s\<lparr>state := ChameleonState.Draw\<rparr>)" by simp
    from useDrawingTexture_wellFormed [OF this, of project] w u show ?thesis
      by (auto simp add: wellFormed_state) (simp add: wellFormed_def)
  qed
  with s1 show ?thesis by (simp add: wellFormed_def)
qed

lemma wellFormed_mouseup: "wellFormed (mouseup event s) = wellFormed s"
  by (simp add: wellFormed_def mouseup_def Let_def update_def finishUpdate_def
      rotateCamera_def zoomCamera_def panCamera_def split: option.splits)

lemma examplePressed_eq:
  "mousedown projectUnrotated (exampleEvent False 0 400 300) exampleChameleon = Inr examplePressed"
proof -
  have "state exampleChameleon = ChameleonState.Idle" "\<not> shiftKey (exampleEvent False 0 400 300)"
    "wellFormed exampleChameleon"
    by (simp_all add: exampleChameleon_eq exampleEvent_def wellFormed_def)
  from mousedown_draw_total [OF this, of projectUnrotated] obtain s1 where
    "mousedown projectUnrotated (exampleEvent False 0 400 300) exampleChameleon = Inr s1" by blast
  then show ?thesis by (simp add: examplePressed_def)
qed

lemma examplePressed_simps:
  "state examplePressed = ChameleonState.Draw" "\<not> usingViewingTexture examplePressed"
  "uvRecomputations examplePressed = 1" "wellFormed examplePressed"
proof -
  have h: "state exampleChameleon = ChameleonState.Idle" "\<not> shiftKey (exampleEvent False 0 400 300)"
    by (simp_all add: exampleChameleon_eq exampleEvent_def)
  have w: "wellFormed exampleChameleon"
    by (simp add: exampleChameleon_eq wellFormed_def)
  have u: "usingViewingTexture exampleChameleon" "uvRecomputations exampleChameleon = 0"
    by (simp_all add: exampleChameleon_eq uvRecomputations_def)
  from mousedown_draw_Inr [OF h examplePressed_eq] u
  show "state examplePressed = ChameleonState.Draw" "\<not> usingViewingTexture examplePressed"
    "uvRecomputations examplePressed = 1"
    by simp_all
  from wellFormed_mousedown_draw [OF h w examplePressed_eq]
  show "wellFormed examplePressed" .
qed

lemma exampleStroked_simps:
  "state exampleStroked = ChameleonState.Idle" "\<not> usingViewingTexture exampleStroked"
  "uvRecomputations exampleStroked = 1" "wellFormed exampleStroked"
  by (simp_all add: exampleStroked_def mouseup_uvs examplePressed_simps wellFormed_mouseup)

lemma examplePressedAgain_eq:
  "mousedown projectUnrotated (exampleEvent False 0 410 300) exampleStroked = Inr examplePressedAgain"
proof -
  have "\<not> shiftKey (exampleEvent False 0 410 300)"
    by (simp add: exampleEvent_def)
  from mousedown_draw_total [OF exampleStroked_simps(1) this exampleStroked_simps(4), of projectUnrotated]
  obtain s1 where
    "mousedown projectUnrotated (exampleEvent False 0 410 300) exampleStroked = Inr s1" by blast
  then show ?thesis by (simp add: examplePressedAgain_def)
qed

text \<open>
  The claim as written has every stroke recompute the drawing UV set exactly once.  A
  second stroke that follows a first one directly finds the drawing texture in use and
  recomputes nothing: the count is 1 before it and 1 after it.
\<close>

theorem second_stroke_no_recomputation:
  "state exampleStroked = ChameleonState.Idle
   \<and> \<not> shiftKey (exampleEvent False 0 410 300)
   \<and> mousedown projectUnrotated (exampleEvent False 0 410 300) exampleStroked = Inr examplePressedAgain
   \<and> state examplePressedAgain = ChameleonState.Draw
   \<and> state (mouseup (exampleEvent False 0 410 300) examplePressedAgain) = ChameleonState.Idle
   \<and> uvRecomputations exampleStroked = 1
   \<and> uvRecomputations (mouseup (exampleEvent False 0 410 300) examplePressedAgain) = 1"
proof -
  have sh: "\<not> shiftKey (exampleEvent False 0 410 300)"
    by (simp add: exampleEvent_def)
  from mousedown_draw_Inr [OF exampleStroked_simps(1) sh examplePressedAgain_eq]
  have "state examplePressedAgain = ChameleonState.Draw" "uvRecomputations examplePressedAgain = 1"
    by (simp_all add: exampleStroked_simps)
  with sh show ?thesis
    by (simp add: exampleStroked_simps examplePressedAgain_eq mouseup_uvs)
qed


lemma mouseup_canvas:
  "canvasWidth (mouseup event s) = canvasWidth s" "canvasHeight (mouseup event s) = canvasHeight s"
  by (simp_all add: mouseup_def Let_def update_def finishUpdate_def
      rotateCamera_def zoomCamera_def panCamera_def split: option.splits)

lemma exampleRepanned_eq:
  "mousedown projectUnrotated (exampleEvent True 2 400 300)
     (mouseup (exampleEvent True 2 420 300) examplePanning) = Inr exampleRepanned"
proof -
  let ?s = "mouseup (exampleEvent True 2 420 300) examplePanning"
  have idle: "state ?s = ChameleonState.Idle" by (simp add: mouseup_uvs)
  have k: "shiftKey (exampleEvent True 2 400 300)" "button (exampleEvent True 2 400 300) = 2"
    by (simp_all add: exampleEvent_def)
  have "canvasWidth (useViewingTexture ?s) = 800" "canvasHeight (useViewingTexture ?s) = 600"
    by (simp_all add: useViewingTexture_def mouseup_canvas examplePanning_def exampleChameleon_eq)
  then obtain v where
    "getMousePositionInCanvas (useViewingTexture ?s) (pageX (exampleEvent True 2 400 300))
       (pageY (exampleEvent True 2 400 300)) True = Inr v"
    by (simp add: getMousePositionInCanvas_def Let_def)
  then show ?thesis
    by (simp add: exampleRepanned_def mousedown_pan [OF idle k])
qed

theorem texture_switch_noop_witness:
  "usingViewingTexture exampleChameleon
   \<and> useViewingTexture exampleChameleon = exampleChameleon
   \<and> \<not> usingViewingTexture exampleStroked
   \<and> useDrawingTexture projectUnrotated exampleStroked = Inr exampleStroked
   \<and> shiftKey (exampleEvent True 2 400 300)
   \<and> mousedown projectUnrotated (exampleEvent True 2 400 300)
        (mouseup (exampleEvent True 2 420 300) examplePanning) = Inr exampleRepanned
   \<and> drawingTextureUvs exampleRepanned = drawingTextureUvs examplePanning
   \<and> uvRecomputations exampleRepanned = uvRecomputations examplePanning
   \<and> state exampleChameleon = ChameleonState.Idle
   \<and> \<not> shiftKey (exampleEvent False 0 400 300)
   \<and> mousedown projectUnrotated (exampleEvent False 0 400 300) exampleChameleon = Inr examplePressed
   \<and> (\<exists>s2. mousemoves [exampleEvent False 0 410 300] examplePressed = Inr s2
         \<and> state (mouseup (exampleEvent False 0 410 300) s2) = ChameleonState.Idle
         \<and> uvRecomputations (mouseup (exampleEvent False 0 410 300) s2) = 1)"
proof -
  have h1: "usingViewingTexture exampleChameleon" "state exampleChameleon = ChameleonState.Idle"
    "uvRecomputations exampleChameleon = 0"
    by (simp_all add: exampleChameleon_eq uvRecomputations_def)
  have h2: "\<not> usingViewingTexture exampleStroked" by (rule exampleStroked_simps)
  have h3: "shiftKey (exampleEvent True 2 400 300)" "\<not> shiftKey (exampleEvent False 0 400 300)"
    by (simp_all add: exampleEvent_def)
  note t1 = texture_switch_noop [of exampleChameleon projectUnrotated "exampleEvent False 0 400 300"
      "exampleEvent False 0 410 300" exampleRepanned examplePressed "[exampleEvent False 0 410 300]"]
  note t2 = texture_switch_noop [of exampleStroked projectUnrotated "exampleEvent False 0 400 300"
      "exampleEvent False 0 410 300" exampleRepanned examplePressed "[exampleEvent False 0 410 300]"]
  note t3 = texture_switch_noop [of examplePanning projectUnrotated "exampleEvent True 2 400 300"
      "exampleEvent True 2 420 300" exampleRepanned examplePressed "[exampleEvent False 0 410 300]"]
  from t1 h1 have r1: "useViewingTexture exampleChameleon = exampleChameleon" by blast
  from t2 h2 have r2: "useDrawingTexture projectUnrotated exampleStroked = Inr exampleStroked" by blast
  from t3 h3 exampleRepanned_eq
  have r3: "drawingTextureUvs exampleRepanned = drawingTextureUvs examplePanning"
    "uvRecomputations exampleRepanned = uvRecomputations examplePanning"
    by blast+
  from t1 h1(1,2) h3 examplePressed_eq
  have "\<exists>s2. mousemoves [exampleEvent False 0 410 300] examplePressed = Inr s2
         \<and> state (mouseup (exampleEvent False 0 410 300) s2) = ChameleonState.Idle
         \<and> drawingTextureUvs (mouseup (exampleEvent False 0 410 300) s2)
             = drawingTextureUvs examplePressed
         \<and> uvRecomputations (mouseup (exampleEvent False 0 410 300) s2)
             = uvRecomputations exampleChameleon + (if usingViewingTexture exampleChameleon then 1 else 0)"
    by blast
  then have r4: "\<exists>s2. mousemoves [exampleEvent False 0 410 300] examplePressed = Inr s2
         \<and> state (mouseup (exampleEvent False 0 410 300) s2) = ChameleonState.Idle
         \<and> uvRecomputations (mouseup (exampleEvent False 0 410 300) s2) = 1"
    unfolding h1(3) using h1(1) by auto
  from h1 h2 h3 r1 r2 r3 r4 exampleRepanned_eq examplePressed_eq show ?thesis by blast
qed


subsection \<open>Vector algebra\<close>

lemma length3_sq: "length3 v * length3 v = dot3 v v"
  by (simp add: length3_def dot3_def)

lemma length3_dot3: "length3 v = sqrt (dot3 v v)"
  by (simp add: length3_def dot3_def)

lemma length3_nonneg: "0 \<le> length3 v"
  by (simp add: length3_def)

lemma sum3_squares_zero:
  fixes p q r :: real
  shows "p * p + q * q + r * r = 0 \<longleftrightarrow> p = 0 \<and> q = 0 \<and> r = 0"
proof
  assume h: "p * p + q * q + r * r = 0"
  have "0 \<le> p * p" "0 \<le> q * q" "0 \<le> r * r" by simp_all
  with h have "p * p = 0" "q * q = 0" "r * r = 0" by linarith+
  then show "p = 0 \<and> q = 0 \<and> r = 0" by simp
qed simp

lemma length3_zero_iff: "length3 v = 0 \<longleftrightarrow> v = Vector3 0 0 0"
  by (cases v) (simp add: length3_def sum3_squares_zero)

lemma length3_sq_le_one: "length3 v \<le> 1 \<Longrightarrow> length3 v * length3 v \<le> 1"
  using length3_nonneg [of v] by (simp add: mult_le_one)

lemma length3_multiplyScalar3: "length3 (multiplyScalar3 v k) = \<bar>k\<bar> * length3 v"
proof -
  have "x3 v * k * (x3 v * k) + y3 v * k * (y3 v * k) + z3 v * k * (z3 v * k)
        = (k * k) * (x3 v * x3 v + y3 v * y3 v + z3 v * z3 v)"
    by (simp add: algebra_simps)
  then show ?thesis
    by (simp add: length3_def multiplyScalar3_def real_sqrt_mult)
qed

lemma length3_normalize3: "length3 v \<noteq> 0 \<Longrightarrow> length3 (normalize3 v) = 1"
  using length3_nonneg [of v]
  by (simp add: normalize3_def divideScalar3_def length3_multiplyScalar3)

lemma z3_normalize3: "z3 v = 0 \<Longrightarrow> z3 (normalize3 v) = 0"
  by (simp add: normalize3_def divideScalar3_def multiplyScalar3_def)

lemma lift_length:
  assumes "z3 m = 0" and "length3 m \<le> 1"
  shows "length3 (Vector3 (x3 m) (y3 m) (sqrt (1 - length3 m * length3 m))) = 1"
proof -
  have "0 \<le> 1 - length3 m * length3 m"
    using assms(2) length3_nonneg [of m] by (simp add: mult_le_one)
  then have "sqrt (1 - length3 m * length3 m) * sqrt (1 - length3 m * length3 m)
        = 1 - length3 m * length3 m"
    by simp
  moreover have "length3 m * length3 m = x3 m * x3 m + y3 m * y3 m"
    using assms(1) by (simp add: length3_sq dot3_def)
  ultimately show ?thesis
    by (simp add: length3_def)
qed

lemma dot3_commute: "dot3 u v = dot3 v u"
  by (simp add: dot3_def mult.commute)

lemma dot3_add3_left: "dot3 (add3 u v) w = dot3 u w + dot3 v w"
  by (simp add: dot3_def add3_def algebra_simps)

lemma dot3_add3_right: "dot3 w (add3 u v) = dot3 w u + dot3 w v"
  by (simp add: dot3_def add3_def algebra_simps)

lemma dot3_scale_left: "dot3 (multiplyScalar3 u k) w = k * dot3 u w"
  by (simp add: dot3_def multiplyScalar3_def algebra_simps)

lemma dot3_scale_right: "dot3 w (multiplyScalar3 u k) = k * dot3 w u"
  by (simp add: dot3_def multiplyScalar3_def algebra_simps)

lemma dot3_cross3: "dot3 (cross3 u e) u = 0" "dot3 (cross3 u e) e = 0"
  "dot3 u (cross3 u e) = 0" "dot3 e (cross3 u e) = 0"
  by (simp_all add: dot3_def cross3_def algebra_simps)

lemma cross3_lagrange:
  "dot3 (cross3 u e) (cross3 u e) = dot3 u u * dot3 e e - dot3 u e * dot3 u e"
  by (simp add: dot3_def cross3_def algebra_simps)

lemma multiplyScalar3_one: "multiplyScalar3 w 1 = w"
  by (simp add: multiplyScalar3_def)

lemma setLength3_scale: "length3 w \<noteq> 0 \<Longrightarrow> setLength3 w l = multiplyScalar3 w (l / length3 w)"
  by (simp add: setLength3_def Let_def multiplyScalar3_one)

lemma length3_cross3_orthogonal:
  assumes "dot3 u e = 0"
  shows "length3 (cross3 u e) = length3 u * length3 e"
proof -
  have "length3 (cross3 u e) = sqrt (dot3 (cross3 u e) (cross3 u e))"
    by (simp add: length3_def dot3_def)
  also have "\<dots> = sqrt (dot3 u u * dot3 e e)"
    using assms by (simp add: cross3_lagrange)
  also have "\<dots> = sqrt (dot3 u u) * sqrt (dot3 e e)"
    by (rule real_sqrt_mult)
  also have "\<dots> = length3 u * length3 e"
    by (simp add: length3_def dot3_def)
  finally show ?thesis .
qed

lemma ball_vector_length:
  assumes U: "length3 u \<noteq> 0" and E: "length3 e \<noteq> 0" and O: "dot3 u e = 0"
    and M: "length3 m = 1"
  shows "length3 (add3 (add3 (setLength3 u (y3 m)) (setLength3 (cross3 u e) (x3 m)))
                       (setLength3 e (z3 m))) = 1"
proof -
  let ?p = "length3 u" and ?q = "length3 e"
  let ?r = "cross3 u e"
  have R: "length3 ?r = ?p * ?q" by (rule length3_cross3_orthogonal [OF O])
  with U E have Rn: "length3 ?r \<noteq> 0" by simp
  let ?v = "add3 (add3 (multiplyScalar3 u (y3 m / ?p)) (multiplyScalar3 ?r (x3 m / (?p * ?q))))
                 (multiplyScalar3 e (z3 m / ?q))"
  have uu: "dot3 u u = ?p * ?p" and ee: "dot3 e e = ?q * ?q"
    by (simp_all add: length3_sq)
  have rr: "dot3 ?r ?r = (?p * ?q) * (?p * ?q)"
    using length3_sq [of ?r] R by simp
  have eu: "dot3 e u = 0" using O by (simp add: dot3_commute)
  have mm: "x3 m * x3 m + y3 m * y3 m + z3 m * z3 m = 1"
    using length3_sq [of m] M by (simp add: dot3_def)
  have "dot3 ?v ?v = y3 m / ?p * (y3 m / ?p) * (?p * ?p)
                     + x3 m / (?p * ?q) * (x3 m / (?p * ?q)) * ((?p * ?q) * (?p * ?q))
                     + z3 m / ?q * (z3 m / ?q) * (?q * ?q)"
    by (simp add: dot3_add3_left dot3_add3_right dot3_scale_left dot3_scale_right dot3_cross3
        O eu uu ee rr)
  also have "\<dots> = y3 m * y3 m + x3 m * x3 m + z3 m * z3 m"
    using U E by simp
  finally have "dot3 ?v ?v = 1" using mm by simp
  then have "length3 ?v = 1"
    by (simp only: length3_dot3 real_sqrt_one)
  then show ?thesis
    using U E Rn R by (simp add: setLength3_scale)
qed

subsection \<open>The trackball projection\<close>

lemma mouseOnBall_lift:
  assumes "width box \<noteq> 0" and "height box \<noteq> 0"
  shows "\<exists>m. mouseOnBall box px py = Inr m
     \<and> length3 m = 1 \<and> 0 \<le> z3 m
     \<and> (length3 (boxRelative box px py) > 1 \<longrightarrow>
          m = normalize3 (boxRelative box px py) \<and> z3 m = 0)
     \<and> (length3 (boxRelative box px py) \<le> 1 \<longrightarrow>
          x3 m = x3 (boxRelative box px py) \<and> y3 m = y3 (boxRelative box px py)
          \<and> z3 m = sqrt (1 - length3 (boxRelative box px py) * length3 (boxRelative box px py)))"
proof (cases "length3 (boxRelative box px py) > 1")
  case True
  have z: "z3 (boxRelative box px py) = 0" by (simp add: boxRelative_def)
  from True have "length3 (boxRelative box px py) \<noteq> 0" by simp
  from length3_normalize3 [OF this] z3_normalize3 [OF z] True assms show ?thesis
    by (simp add: mouseOnBall_def Let_def)
next
  case False
  have z: "z3 (boxRelative box px py) = 0" by (simp add: boxRelative_def)
  from False have le: "length3 (boxRelative box px py) \<le> 1" by simp
  from lift_length [OF z le] length3_sq_le_one [OF le] False assms show ?thesis
    by (simp add: mouseOnBall_def Let_def)
qed



text \<open>
  Claim C4.  On a canvas box with a width and a height, \<open>_getMouseProjectionOnBall\<close>
  returns for every screen point, and the point \<open>mouseOnBall\<close> it lifts the screen point
  to lies on the closed unit hemisphere: its length is 1 and its z is not negative.  When
  the planar length of the box-relative point exceeds 1, the point is that point
  normalised, on the equator (\<open>z = 0\<close>); otherwise x and y are kept and z is
  \<open>sqrt (1 - length\<^sup>2)\<close>.  The vector returned is this point in the frame of the camera
  (up, up \<times> eye, eye); when up and the eye direction are nonzero and orthogonal, as the
  camera moves of this class keep them, its length is 1 too.
\<close>

theorem getMouseProjectionOnBall_hemisphere:
  assumes "width (canvasBox s) \<noteq> 0" and "height (canvasBox s) \<noteq> 0"
  shows "\<exists>m v s'. mouseOnBall (canvasBox s) px py = Inr m
     \<and> getMouseProjectionOnBall s px py = Inr (v, s')
     \<and> length3 m = 1 \<and> 0 \<le> z3 m
     \<and> (length3 (boxRelative (canvasBox s) px py) > 1 \<longrightarrow>
          m = normalize3 (boxRelative (canvasBox s) px py) \<and> z3 m = 0)
     \<and> (length3 (boxRelative (canvasBox s) px py) \<le> 1 \<longrightarrow>
          x3 m = x3 (boxRelative (canvasBox s) px py) \<and> y3 m = y3 (boxRelative (canvasBox s) px py)
          \<and> z3 m = sqrt (1 - length3 (boxRelative (canvasBox s) px py)
                              * length3 (boxRelative (canvasBox s) px py)))
     \<and> v = add3 (add3 (setLength3 (up (camera s)) (y3 m))
                      (setLength3 (cross3 (up (camera s)) (sub3 (position (camera s)) (target s))) (x3 m)))
                (setLength3 (sub3 (position (camera s)) (target s)) (z3 m))
     \<and> (length3 (up (camera s)) \<noteq> 0 \<and> length3 (sub3 (position (camera s)) (target s)) \<noteq> 0
          \<and> dot3 (up (camera s)) (sub3 (position (camera s)) (target s)) = 0 \<longrightarrow>
          length3 v = 1)"
proof -
  from mouseOnBall_lift [OF assms, of px py] obtain m where
    m: "mouseOnBall (canvasBox s) px py = Inr m" and l: "length3 m = 1" and z: "0 \<le> z3 m"
    and out: "length3 (boxRelative (canvasBox s) px py) > 1 \<longrightarrow>
          m = normalize3 (boxRelative (canvasBox s) px py) \<and> z3 m = 0"
    and inside: "length3 (boxRelative (canvasBox s) px py) \<le> 1 \<longrightarrow>
          x3 m = x3 (boxRelative (canvasBox s) px py) \<and> y3 m = y3 (boxRelative (canvasBox s) px py)
          \<and> z3 m = sqrt (1 - length3 (boxRelative (canvasBox s) px py)
                              * length3 (boxRelative (canvasBox s) px py))"
    by blast
  let ?e = "sub3 (position (camera s)) (target s)"
  let ?v = "add3 (add3 (setLength3 (up (camera s)) (y3 m))
                      (setLength3 (cross3 (up (camera s)) ?e) (x3 m)))
                (setLength3 ?e (z3 m))"
  have g: "getMouseProjectionOnBall s px py = Inr (?v, s\<lparr>eye := setLength3 ?e (z3 m)\<rparr>)"
    using m by (simp add: getMouseProjectionOnBall_def Let_def)
  have u: "length3 (up (camera s)) \<noteq> 0 \<and> length3 ?e \<noteq> 0 \<and> dot3 (up (camera s)) ?e = 0
           \<longrightarrow> length3 ?v = 1"
    using ball_vector_length [of "up (camera s)" ?e m] l by blast
  from m g l z out inside u show ?thesis by blast
qed

text \<open>
  Claim C9, as amended.  A call of \<open>_getMouseProjectionOnBall\<close> that returns leaves the
  camera (position, up vector, orientation), the target, the interaction buffers and all
  other fields as they were, except the stored eye vector: the call overwrites it with
  position minus target, rescaled to the length of the point's z coordinate.
\<close>

theorem getMouseProjectionOnBall_writes_eye:
  assumes "getMouseProjectionOnBall s px py = Inr (v, s')"
  shows "s'\<lparr>eye := eye s\<rparr> = s \<and> camera s' = camera s \<and> target s' = target s
     \<and> (\<exists>m. mouseOnBall (canvasBox s) px py = Inr m
           \<and> eye s' = setLength3 (sub3 (position (camera s)) (target s)) (z3 m))"
proof (cases "mouseOnBall (canvasBox s) px py")
  case (Inl e)
  with assms show ?thesis by (simp add: getMouseProjectionOnBall_def)
next
  case (Inr m)
  with assms have "s' = s\<lparr>eye := setLength3 (sub3 (position (camera s)) (target s)) (z3 m)\<rparr>"
    by (simp add: getMouseProjectionOnBall_def Let_def)
  with Inr show ?thesis by simp
qed

lemma length3_two: "length3 (Vector3 2 0 0) = 2"
  by (simp add: length3_def real_sqrt_unique)

lemma boxRelative_example:
  "boxRelative (canvasBox exampleChameleon) 400 300 = Vector3 0 0 0"
  "boxRelative (canvasBox exampleChameleon) 1200 300 = Vector3 2 0 0"
  "boxRelative (canvasBox exampleChameleon) 0 300 = Vector3 (- 1) 0 0"
  "boxRelative (canvasBox exampleChameleon) 800 300 = Vector3 1 0 0"
  by (simp_all add: exampleChameleon_eq boxRelative_def)

lemma mouseOnBall_example:
  "mouseOnBall (canvasBox exampleChameleon) 400 300 = Inr (Vector3 0 0 1)"
  "mouseOnBall (canvasBox exampleChameleon) 0 300 = Inr (Vector3 (- 1) 0 0)"
  "mouseOnBall (canvasBox exampleChameleon) 800 300 = Inr (Vector3 1 0 0)"
  by (simp_all add: mouseOnBall_def boxRelative_example Let_def length3_simps length3_more)
     (simp_all add: exampleChameleon_eq)

lemma projection_example:
  assumes "canvasBox s = canvasBox exampleChameleon" and "camera s = camera exampleChameleon"
    and "target s = target exampleChameleon"
  shows "getMouseProjectionOnBall s 400 300 = Inr (Vector3 0 0 1, s\<lparr>eye := Vector3 0 0 1\<rparr>)"
    and "getMouseProjectionOnBall s 0 300 = Inr (Vector3 (- 1) 0 0, s\<lparr>eye := Vector3 0 0 0\<rparr>)"
    and "getMouseProjectionOnBall s 800 300 = Inr (Vector3 1 0 0, s\<lparr>eye := Vector3 0 0 0\<rparr>)"
  by (simp_all add: getMouseProjectionOnBall_def assms mouseOnBall_example Let_def)
     (simp_all add: exampleChameleon_eq sub3_def cross3_def setLength3_def length3_simps length3_more
        multiplyScalar3_def add3_def)

lemma press_centre:
  "getMouseProjectionOnBall exampleChameleon 400 300
     = Inr (Vector3 0 0 1, exampleChameleon\<lparr>eye := Vector3 0 0 1\<rparr>)"
  by (rule projection_example) simp_all

text \<open>
  The claim as written has the stored eye vector identical before and after the call.
  On the example, whose eye vector is \<open>(0, 0, 5)\<close>, projecting the centre of the canvas
  leaves \<open>(0, 0, 1)\<close> in the eye vector.
\<close>

theorem projection_overwrites_eye:
  "getMouseProjectionOnBall exampleChameleon 400 300
     = Inr (Vector3 0 0 1, exampleChameleon\<lparr>eye := Vector3 0 0 1\<rparr>)
   \<and> eye exampleChameleon = Vector3 0 0 5
   \<and> eye (exampleChameleon\<lparr>eye := Vector3 0 0 1\<rparr>) = Vector3 0 0 1
   \<and> eye (exampleChameleon\<lparr>eye := Vector3 0 0 1\<rparr>) \<noteq> eye exampleChameleon"
  by (simp add: press_centre) (simp add: exampleChameleon_eq)

theorem getMouseProjectionOnBall_writes_eye_witness:
  "getMouseProjectionOnBall exampleChameleon 400 300
     = Inr (Vector3 0 0 1, exampleChameleon\<lparr>eye := Vector3 0 0 1\<rparr>)
   \<and> camera (exampleChameleon\<lparr>eye := Vector3 0 0 1\<rparr>) = camera exampleChameleon
   \<and> target (exampleChameleon\<lparr>eye := Vector3 0 0 1\<rparr>) = target exampleChameleon
   \<and> (\<exists>m. mouseOnBall (canvasBox exampleChameleon) 400 300 = Inr m
         \<and> Vector3 0 0 1
             = setLength3 (sub3 (position (camera exampleChameleon)) (target exampleChameleon)) (z3 m))"
  using getMouseProjectionOnBall_writes_eye [OF press_centre] press_centre by simp

theorem getMouseProjectionOnBall_hemisphere_witness:
  "width (canvasBox exampleChameleon) \<noteq> 0 \<and> height (canvasBox exampleChameleon) \<noteq> 0
   \<and> length3 (boxRelative (canvasBox exampleChameleon) 400 300) \<le> 1
   \<and> length3 (boxRelative (canvasBox exampleChameleon) 1200 300) > 1
   \<and> length3 (up (camera exampleChameleon)) \<noteq> 0
   \<and> length3 (sub3 (position (camera exampleChameleon)) (target exampleChameleon)) \<noteq> 0
   \<and> dot3 (up (camera exampleChameleon))
        (sub3 (position (camera exampleChameleon)) (target exampleChameleon)) = 0
   \<and> (\<exists>m v s'. mouseOnBall (canvasBox exampleChameleon) 400 300 = Inr m
         \<and> getMouseProjectionOnBall exampleChameleon 400 300 = Inr (v, s')
         \<and> z3 m = 1 \<and> length3 v = 1)
   \<and> (\<exists>m v s'. mouseOnBall (canvasBox exampleChameleon) 1200 300 = Inr m
         \<and> getMouseProjectionOnBall exampleChameleon 1200 300 = Inr (v, s')
         \<and> z3 m = 0 \<and> length3 m = 1 \<and> length3 v = 1)"
proof -
  have b: "width (canvasBox exampleChameleon) \<noteq> 0" "height (canvasBox exampleChameleon) \<noteq> 0"
    by (simp_all add: exampleChameleon_eq)
  have i: "length3 (boxRelative (canvasBox exampleChameleon) 400 300) \<le> 1"
    "length3 (boxRelative (canvasBox exampleChameleon) 400 300) = 0"
    by (simp_all add: boxRelative_example length3_simps)
  have o: "length3 (boxRelative (canvasBox exampleChameleon) 1200 300) > 1"
    by (simp add: boxRelative_example length3_two)
  have k: "length3 (up (camera exampleChameleon)) \<noteq> 0
     \<and> length3 (sub3 (position (camera exampleChameleon)) (target exampleChameleon)) \<noteq> 0
     \<and> dot3 (up (camera exampleChameleon))
        (sub3 (position (camera exampleChameleon)) (target exampleChameleon)) = 0"
    by (simp add: exampleChameleon_eq sub3_def dot3_def length3_simps)
  from getMouseProjectionOnBall_hemisphere [OF b, of 400 300] i k
  have 1: "\<exists>m v s'. mouseOnBall (canvasBox exampleChameleon) 400 300 = Inr m
         \<and> getMouseProjectionOnBall exampleChameleon 400 300 = Inr (v, s')
         \<and> z3 m = 1 \<and> length3 v = 1"
    by auto
  from getMouseProjectionOnBall_hemisphere [OF b, of 1200 300] o k
  have 2: "\<exists>m v s'. mouseOnBall (canvasBox exampleChameleon) 1200 300 = Inr m
         \<and> getMouseProjectionOnBall exampleChameleon 1200 300 = Inr (v, s')
         \<and> z3 m = 0 \<and> length3 m = 1 \<and> length3 v = 1"
    by auto
  from b i(1) o k 1 2 show ?thesis by blast
qed


subsection \<open>Rotation\<close>

lemma rotateAngle_same:
  assumes "rotateStart s = rotateEnd s"
  shows "rotateAngle s = None \<or> rotateAngle s = Some 0"
proof (cases "length3 (rotateEnd s) = 0")
  case True
  with assms show ?thesis by (simp add: rotateAngle_def js_div_def)
next
  case False
  let ?l = "length3 (rotateEnd s)"
  have "dot3 (rotateEnd s) (rotateEnd s) / ?l = ?l * ?l / ?l"
    by (simp only: length3_sq)
  also have "\<dots> = ?l" using False by simp
  finally have q: "js_div (dot3 (rotateStart s) (rotateEnd s)) (length3 (rotateStart s)) = Some ?l"
    using False assms by (simp add: js_div_def)
  have r: "js_div ?l ?l = Some 1" using False by (simp add: js_div_def)
  have "rotateAngle s = Some 0"
    by (simp add: rotateAngle_def q r js_acos_def)
  then show ?thesis ..
qed

text \<open>
  Claim C5.  \<open>rotateCamera\<close> does nothing when the computed angle is \<open>NaN\<close> or \<open>0\<close>.
  When the start vector of the rotation buffer equals its end vector, the computed angle
  is \<open>NaN\<close> (both vectors zero) or \<open>0\<close>, so the object is left as it is: eye vector, up
  vector and rotation buffer are unchanged, and nothing is written.
\<close>

theorem rotateCamera_same_vectors:
  "(rotateAngle s = None \<or> rotateAngle s = Some 0 \<longrightarrow> rotateCamera s = s)
   \<and> (rotateStart s = rotateEnd s \<longrightarrow>
        (rotateAngle s = None \<or> rotateAngle s = Some 0) \<and> rotateCamera s = s)"
proof -
  have 1: "rotateAngle s = None \<or> rotateAngle s = Some 0 \<longrightarrow> rotateCamera s = s"
    by (auto simp add: rotateCamera_def)
  with rotateAngle_same [of s] show ?thesis by blast
qed


lemma exampleRotating_reached:
  "mousedown projectUnrotated (exampleEvent True 0 400 300) exampleChameleon = Inr exampleRotating"
proof -
  have h: "state exampleChameleon = ChameleonState.Idle" "shiftKey (exampleEvent True 0 400 300)"
    "button (exampleEvent True 0 400 300) = 0" "useViewingTexture exampleChameleon = exampleChameleon"
    by (simp_all add: exampleChameleon_eq exampleEvent_def useViewingTexture_def)
  have g: "getMouseProjectionOnBall (exampleChameleon\<lparr>state := Rotate\<rparr>) 400 300
     = Inr (Vector3 0 0 1, exampleChameleon\<lparr>state := Rotate, eye := Vector3 0 0 1\<rparr>)"
    by (simp add: projection_example)
  have p: "pageX (exampleEvent True 0 400 300) = 400" "pageY (exampleEvent True 0 400 300) = 300"
    by (simp_all add: exampleEvent_def)
  show ?thesis
    unfolding mousedown_rotate [OF h(1,2,3)] h(4) p g
    by (simp add: exampleRotating_def)
qed

theorem rotateCamera_same_vectors_witness:
  "rotateStart exampleRotating = rotateEnd exampleRotating
   \<and> rotateAngle exampleRotating = Some 0
   \<and> rotateCamera exampleRotating = exampleRotating
   \<and> rotateStart exampleChameleon = rotateEnd exampleChameleon
   \<and> rotateAngle exampleChameleon = None
   \<and> rotateCamera exampleChameleon = exampleChameleon"
proof -
  have h1: "rotateStart exampleRotating = rotateEnd exampleRotating"
    by (simp add: exampleRotating_def)
  have h2: "rotateStart exampleChameleon = rotateEnd exampleChameleon"
    by (simp add: exampleChameleon_eq)
  have a1: "rotateAngle exampleRotating = Some 0"
    by (simp add: exampleRotating_def rotateAngle_def js_div_def js_acos_def dot3_def length3_more)
  have a2: "rotateAngle exampleChameleon = None"
    by (simp add: exampleChameleon_eq rotateAngle_def js_div_def length3_simps)
  from rotateCamera_same_vectors [of exampleRotating] h1
  have r1: "rotateCamera exampleRotating = exampleRotating" by blast
  from rotateCamera_same_vectors [of exampleChameleon] a2
  have r2: "rotateCamera exampleChameleon = exampleChameleon" by blast
  from h1 h2 a1 a2 r1 r2 show ?thesis by blast
qed

lemma exampleRotatePressed_reached:
  "mousedown projectUnrotated (exampleEvent True 0 0 300) exampleChameleon = Inr exampleRotatePressed"
proof -
  have h: "state exampleChameleon = ChameleonState.Idle" "shiftKey (exampleEvent True 0 0 300)"
    "button (exampleEvent True 0 0 300) = 0" "useViewingTexture exampleChameleon = exampleChameleon"
    by (simp_all add: exampleChameleon_eq exampleEvent_def useViewingTexture_def)
  have g: "getMouseProjectionOnBall (exampleChameleon\<lparr>state := Rotate\<rparr>) 0 300
     = Inr (Vector3 (- 1) 0 0, exampleChameleon\<lparr>state := Rotate, eye := Vector3 0 0 0\<rparr>)"
    by (simp add: projection_example)
  have p: "pageX (exampleEvent True 0 0 300) = 0" "pageY (exampleEvent True 0 0 300) = 300"
    by (simp_all add: exampleEvent_def)
  show ?thesis
    unfolding mousedown_rotate [OF h(1,2,3)] h(4) p g
    by (simp add: exampleRotatePressed_def)
qed

lemma exampleRotateDragged_reached:
  "mousemove (exampleEvent True 0 800 300) exampleRotatePressed = Inr exampleRotateDragged"
proof -
  have g: "getMouseProjectionOnBall exampleRotatePressed 800 300
     = Inr (Vector3 1 0 0, exampleRotatePressed\<lparr>eye := Vector3 0 0 0\<rparr>)"
    by (rule projection_example) (simp_all add: exampleRotatePressed_def)
  have p: "pageX (exampleEvent True 0 800 300) = 800" "pageY (exampleEvent True 0 800 300) = 300"
    by (simp_all add: exampleEvent_def)
  have st: "state exampleRotatePressed = Rotate" by (simp add: exampleRotatePressed_def)
  show ?thesis
    by (simp add: mousemove_def st p g exampleRotateDragged_def) (simp add: exampleRotatePressed_def)
qed

lemma length3_axis:
  "length3 (Vector3 k 0 0) = \<bar>k\<bar>" "length3 (Vector3 0 k 0) = \<bar>k\<bar>"
  "length3 (Vector3 0 0 k) = \<bar>k\<bar>"
  by (simp_all add: length3_def)

lemma half_turn_cos:
  "cos (pi * 3 / 4) * cos (pi * 3 / 4) = 1 / 2"
  "cos (pi * 3 / 4) * 5 * cos (pi * 3 / 4) = 5 / 2"
proof -
  have "pi * 3 / 4 = pi - pi / 4" by simp
  then have "cos (pi * 3 / 4) = cos (pi - pi / 4)" by (rule arg_cong)
  also have "\<dots> = - (sqrt 2 / 2)" by (simp only: cos_pi_minus cos_45)
  finally have k: "cos (pi * 3 / 4) = - (sqrt 2 / 2)" .
  show "cos (pi * 3 / 4) * cos (pi * 3 / 4) = 1 / 2"
    unfolding k by simp
  show "cos (pi * 3 / 4) * 5 * cos (pi * 3 / 4) = 5 / 2"
    unfolding k by simp
qed

lemma antiparallel_angle:
  "rotateAngle (exampleRotateDragged\<lparr>eye := Vector3 0 0 5\<rparr>) = Some pi"
  by (simp add: exampleRotateDragged_def exampleRotatePressed_def rotateAngle_def js_div_def
      js_acos_def dot3_def length3_more)

lemma antiparallel_rotate:
  "rotateCamera (exampleRotateDragged\<lparr>eye := Vector3 0 0 5\<rparr>)
     = exampleRotateDragged
         \<lparr>eye := Vector3 0 0 (5 / 2),
          camera := (camera exampleRotateDragged)\<lparr>up := Vector3 0 (1 / 2) 0\<rparr>,
          rotateEnd := Vector3 (1 / 2) 0 0,
          rotateStart := Vector3 (1 / 2) 0 0\<rparr>"
  by (simp add: rotateCamera_def antiparallel_angle Let_def)
     (simp add: exampleRotateDragged_def exampleRotatePressed_def exampleChameleon_eq cross3_def
        normalize3_def divideScalar3_def length3_simps setFromAxisAngle_def applyQuaternion_def
        half_turn_cos)

text \<open>
  Claim C10 fails on the code.  A shift-press at the left edge of the canvas followed by
  a move to the right edge buffers the opposite vectors \<open>(-1, 0, 0)\<close> and \<open>(1, 0, 0)\<close>.
  Their angle is \<open>\<pi>\<close>, their cross product is zero, and \<open>normalize\<close> leaves the zero
  axis zero, so the quaternion \<open>(0, 0, 0, cos (3\<pi>/4))\<close> is not a unit quaternion: the next
  \<open>update\<close> halves the eye vector and the up vector, and the camera moves from distance
  5 to distance 5/2 from its target.
\<close>

theorem rotateCamera_antiparallel_halves:
  "mousedown projectUnrotated (exampleEvent True 0 0 300) exampleChameleon = Inr exampleRotatePressed
   \<and> mousemove (exampleEvent True 0 800 300) exampleRotatePressed = Inr exampleRotateDragged
   \<and> rotateStart exampleRotateDragged = Vector3 (- 1) 0 0
   \<and> rotateEnd exampleRotateDragged = Vector3 1 0 0
   \<and> length3 (sub3 (position (camera exampleRotateDragged)) (target exampleRotateDragged)) = 5
   \<and> length3 (up (camera exampleRotateDragged)) = 1
   \<and> length3 (eye (update exampleRotateDragged)) = 5 / 2
   \<and> length3 (up (camera (update exampleRotateDragged))) = 1 / 2
   \<and> position (camera (update exampleRotateDragged)) = Vector3 0 0 (5 / 2)
   \<and> target (update exampleRotateDragged) = Vector3 0 0 0"
proof -
  have e: "exampleRotateDragged\<lparr>eye := sub3 (position (camera exampleRotateDragged))
                                          (target exampleRotateDragged)\<rparr>
           = exampleRotateDragged\<lparr>eye := Vector3 0 0 5\<rparr>"
    by (simp add: exampleRotateDragged_def exampleRotatePressed_def exampleChameleon_eq sub3_def)
  have l: "length3 (Vector3 0 0 (5 / 2)) = 5 / 2" "length3 (Vector3 0 (1 / 2) 0) = 1 / 2"
    by (simp_all add: length3_axis)
  have u: "eye (update exampleRotateDragged) = Vector3 0 0 (5 / 2)"
    "up (camera (update exampleRotateDragged)) = Vector3 0 (1 / 2) 0"
    "position (camera (update exampleRotateDragged)) = Vector3 0 0 (5 / 2)"
    "target (update exampleRotateDragged) = Vector3 0 0 0"
    unfolding update_def e antiparallel_rotate
    by (simp_all add: finishUpdate_def panCamera_def zoomCamera_def zoomFactor_def Let_def
        exampleRotateDragged_def exampleRotatePressed_def exampleChameleon_eq lengthSq2_def sub2_def add3_def)
  have b: "rotateStart exampleRotateDragged = Vector3 (- 1) 0 0"
    "rotateEnd exampleRotateDragged = Vector3 1 0 0"
    "length3 (sub3 (position (camera exampleRotateDragged)) (target exampleRotateDragged)) = 5"
    "length3 (up (camera exampleRotateDragged)) = 1"
    by (simp_all add: exampleRotateDragged_def exampleRotatePressed_def exampleChameleon_eq sub3_def
        length3_simps)
  show ?thesis
    by (simp add: exampleRotatePressed_reached exampleRotateDragged_reached u l b)
qed

text \<open>
  With start and end vectors that are not collinear the axis is a unit vector, the
  quaternion is a unit quaternion, and the rotation keeps the lengths of the eye vector
  and of the up vector.
\<close>

lemma applyQuaternion_dot3:
  "dot3 (applyQuaternion v q) (applyQuaternion v q)
     = (qx q * qx q + qy q * qy q + qz q * qz q + qw q * qw q)
       * (qx q * qx q + qy q * qy q + qz q * qz q + qw q * qw q) * dot3 v v"
  by (simp add: applyQuaternion_def dot3_def Let_def algebra_simps)


lemma rotation_unit:
  assumes "length3 w \<noteq> 0"
  shows "qx (setFromAxisAngle (normalize3 w) t) * qx (setFromAxisAngle (normalize3 w) t)
       + qy (setFromAxisAngle (normalize3 w) t) * qy (setFromAxisAngle (normalize3 w) t)
       + qz (setFromAxisAngle (normalize3 w) t) * qz (setFromAxisAngle (normalize3 w) t)
       + qw (setFromAxisAngle (normalize3 w) t) * qw (setFromAxisAngle (normalize3 w) t) = 1"
proof -
  let ?n = "normalize3 w"
  have "dot3 ?n ?n = 1"
    using length3_sq [of ?n] length3_normalize3 [OF assms] by simp
  then have n: "x3 ?n * x3 ?n + y3 ?n * y3 ?n + z3 ?n * z3 ?n = 1"
    by (simp add: dot3_def)
  have "x3 ?n * sin (t / 2) * (x3 ?n * sin (t / 2)) + y3 ?n * sin (t / 2) * (y3 ?n * sin (t / 2))
        + z3 ?n * sin (t / 2) * (z3 ?n * sin (t / 2)) + cos (t / 2) * cos (t / 2)
      = (x3 ?n * x3 ?n + y3 ?n * y3 ?n + z3 ?n * z3 ?n) * (sin (t / 2) * sin (t / 2))
        + cos (t / 2) * cos (t / 2)"
    by (simp add: algebra_simps)
  also have "\<dots> = 1"
    unfolding n using sin_cos_squared_add [of "t / 2"] by (simp add: power2_eq_square)
  finally show ?thesis
    by (simp add: setFromAxisAngle_def Let_def)
qed

lemma applyQuaternion_length3:
  assumes "qx q * qx q + qy q * qy q + qz q * qz q + qw q * qw q = 1"
  shows "length3 (applyQuaternion v q) = length3 v"
  by (simp only: length3_dot3 applyQuaternion_dot3 assms mult_1)

lemma rotateCamera_isometry:
  assumes "cross3 (rotateStart s) (rotateEnd s) \<noteq> Vector3 0 0 0"
  shows "length3 (eye (rotateCamera s)) = length3 (eye s)
         \<and> length3 (up (camera (rotateCamera s))) = length3 (up (camera s))"
proof -
  from assms have n: "length3 (cross3 (rotateStart s) (rotateEnd s)) \<noteq> 0"
    by (simp add: length3_zero_iff)
  show ?thesis
  proof (cases "rotateAngle s")
    case None
    then show ?thesis by (simp add: rotateCamera_def)
  next
    case (Some angle)
    show ?thesis
    proof (cases "angle = 0")
      case True
      with Some show ?thesis by (simp add: rotateCamera_def)
    next
      case False
      let ?q = "setFromAxisAngle (normalize3 (cross3 (rotateStart s) (rotateEnd s)))
                  (- (angle * rotateSpeed s))"
      from Some False have "eye (rotateCamera s) = applyQuaternion (eye s) ?q"
        "up (camera (rotateCamera s)) = applyQuaternion (up (camera s)) ?q"
        by (simp_all add: rotateCamera_def Let_def)
      with applyQuaternion_length3 [OF rotation_unit [OF n]] show ?thesis by simp
    qed
  qed
qed


end
